theory Spec2Isabelle
  imports Complex_Main
begin

section \<open>The transaction history table\<close>

text \<open>
  \<^verbatim>\<open>src/components/HistoryTable.tsx\<close> holds two versions of the React component
  \<^verbatim>\<open>HistoryTable\<close>, one after the other. The first (lines 1-204) has the pagination
  buttons and writes the CSV age column with \<^verbatim>\<open>toISOString\<close>; the second (lines 205-456)
  has no pagination buttons, adds \<^verbatim>\<open>formatTimestamp\<close> and \<^verbatim>\<open>simplifyMethodName\<close> and
  writes the CSV age column with \<^verbatim>\<open>formatTimestamp\<close>. Functions that read the same in
  both versions are embedded once; where the versions differ, the second version's
  definition carries the suffix \<open>2\<close>.

  JavaScript numbers are modelled by their exact values: page numbers, lengths and unix
  timestamps as \<open>int\<close> or \<open>nat\<close> (every operation on them below is exact on doubles
  as long as the values stay under \<open>2 ^ 53\<close>), amounts as \<open>real\<close> (the exact value of a finite
  double). Strings are \<open>string\<close>, one \<open>char\<close> for one UTF-16 code unit.
\<close>

subsection \<open>Data\<close>

text \<open>
  \<^verbatim>\<open>type Transaction = { from: string; to: string; amount: number; timestamp: number;
  hash?: string; block?: string; fee?: string; method?: string }\<close>.
  An optional field that is absent reads \<^verbatim>\<open>undefined\<close>: \<open>None\<close>.
\<close>

record transaction =
  tx_from :: string
  tx_to :: string
  amount :: real
  timestamp :: int
  hash :: "string option"
  block :: "string option"
  fee :: "string option"
  tx_method :: "string option"

text \<open>A call of \<^verbatim>\<open>toast({ title, description, variant })\<close>.\<close>

record toast =
  title :: string
  description :: string
  variant :: string

text \<open>
  The \<^verbatim>\<open>useState\<close> cells of the component, and the two effects a fetch has outside
  them: the toasts shown and the lines written with \<^verbatim>\<open>console.error\<close>, oldest first.
\<close>

record view_state =
  transactions :: "transaction list"
  currentPage :: int
  totalPages :: int
  isMobile :: bool
  isLoading :: bool
  toasts :: "toast list"
  console :: "string list"

text \<open>
  \<^verbatim>\<open>useState<Transaction[]>([])\<close>, \<^verbatim>\<open>useState(1)\<close>, \<^verbatim>\<open>useState(1)\<close>,
  \<^verbatim>\<open>useState(false)\<close>, \<^verbatim>\<open>useState(false)\<close>.
\<close>

definition initial_state :: view_state where
  "initial_state =
     \<lparr>transactions = [], currentPage = 1, totalPages = 1, isMobile = False,
      isLoading = False, toasts = [], console = []\<rparr>"

subsection \<open>fetchTransactions\<close>

text \<open>
  What the network hands to one run of \<^verbatim>\<open>fetchTransactions\<close>:
  \<^item> \<open>NetworkError\<close>: \<^verbatim>\<open>fetch\<close> rejects;
  \<^item> \<open>InvalidJson ok\<close>: a response arrives and \<^verbatim>\<open>response.json()\<close> rejects;
  \<^item> \<open>Response ok b\<close>: a response arrives with \<^verbatim>\<open>response.ok = ok\<close> and the parsed
    body \<open>b\<close>.
  A parsed body is \<open>JsonNull\<close> (the JSON text \<^verbatim>\<open>null\<close>, on which a property read
  throws a TypeError) or \<open>JsonData t m\<close>, any other value, of which the code reads
  \<^verbatim>\<open>data.transactions\<close> (\<open>t\<close>) and \<^verbatim>\<open>data.message\<close> (\<open>m\<close>). \<open>t = None\<close> stands for
  a \<^verbatim>\<open>transactions\<close> property that is absent or falsy; \<open>Some txs\<close> for an array, which
  is truthy also when empty. These are the bodies that keep the state within its declared
  types; a truthy value that is not an array of transactions is an input of the untyped
  model further down. \<open>m = None\<close> stands for an absent \<^verbatim>\<open>message\<close>; a message
  that is present is a string, as the API's \<^verbatim>\<open>{ message?: string }\<close> says.
\<close>

datatype body = JsonNull | JsonData "transaction list option" "string option"

datatype fetch_outcome = NetworkError | InvalidJson bool | Response bool body

text \<open>\<^verbatim>\<open>a || b\<close> on an optional string: the empty string is falsy, as \<^verbatim>\<open>undefined\<close> is.\<close>

definition js_or :: "string option \<Rightarrow> string \<Rightarrow> string" where
  "js_or a b = (case a of None \<Rightarrow> b | Some x \<Rightarrow> if x = [] then b else x)"

definition error_toast :: "string \<Rightarrow> toast" where
  "error_toast d =
     \<lparr>title = ''Error fetching transactions'', description = d, variant = ''destructive''\<rparr>"

text \<open>\<^verbatim>\<open>setIsLoading(true)\<close>, the first statement of the \<^verbatim>\<open>try\<close> block.\<close>

definition fetch_begin :: "view_state \<Rightarrow> view_state" where
  "fetch_begin s = s\<lparr>isLoading := True\<rparr>"

text \<open>
  The rest of the \<^verbatim>\<open>try\<close> block with its \<^verbatim>\<open>catch\<close>, once the request has settled.
  The first equation is the \<^verbatim>\<open>if (response.ok && data.transactions)\<close> branch, the
  second its \<^verbatim>\<open>else\<close> (\<open>fallback\<close> is the text after \<^verbatim>\<open>data.message ||\<close>, which differs
  between the two versions), the third the \<^verbatim>\<open>catch\<close> block. \<^verbatim>\<open>Math.ceil(n / 50)\<close> is the
  ceiling of the exact quotient: for an array length \<open>n < 2 ^ 32\<close> the double
  \<^verbatim>\<open>n / 50\<close> is an integer exactly when 50 divides \<open>n\<close>.
\<close>

fun fetch_settle :: "string \<Rightarrow> fetch_outcome \<Rightarrow> view_state \<Rightarrow> view_state" where
  "fetch_settle fallback (Response True (JsonData (Some txs) m)) s =
     s\<lparr>transactions := txs, totalPages := \<lceil>real (length txs) / 50\<rceil>\<rparr>"
| "fetch_settle fallback (Response ok (JsonData t m)) s =
     s\<lparr>toasts := toasts s @ [error_toast (js_or m fallback)]\<rparr>"
| "fetch_settle fallback out s =
     s\<lparr>console := console s @ [''Error fetching transactions:''],
       toasts := toasts s @ [error_toast ''Failed to fetch transactions.'']\<rparr>"

text \<open>\<^verbatim>\<open>setIsLoading(false)\<close>, the \<^verbatim>\<open>finally\<close> block.\<close>

definition fetch_finally :: "view_state \<Rightarrow> view_state" where
  "fetch_finally s = s\<lparr>isLoading := False\<rparr>"

text \<open>One whole run of \<^verbatim>\<open>fetchTransactions\<close>, first version (lines 31-56).\<close>

definition fetchTransactions :: "fetch_outcome \<Rightarrow> view_state \<Rightarrow> view_state" where
  "fetchTransactions out s =
     fetch_finally (fetch_settle ''Unexpected response format.'' out (fetch_begin s))"

text \<open>Second version (lines 237-262): the fallback text has no full stop.\<close>

definition fetchTransactions2 :: "fetch_outcome \<Rightarrow> view_state \<Rightarrow> view_state" where
  "fetchTransactions2 out s =
     fetch_finally (fetch_settle ''Unexpected response format'' out (fetch_begin s))"

text \<open>
  The outcomes on which the code takes its success branch: an ok status and a body with
  a \<^verbatim>\<open>transactions\<close> array. Every other outcome is a failed fetch.
\<close>

fun fetched :: "fetch_outcome \<Rightarrow> transaction list option" where
  "fetched (Response True (JsonData (Some txs) m)) = Some txs"
| "fetched out = None"


subsection \<open>fetchTransactions on an untyped body\<close>

text \<open>
  \<^verbatim>\<open>response.json()\<close> is untyped, and the code tests \<^verbatim>\<open>data.transactions\<close> for
  truthiness only. Its value is \<open>Falsy\<close> (absent, \<^verbatim>\<open>null\<close>, \<^verbatim>\<open>false\<close>, \<^verbatim>\<open>0\<close> or the
  empty string), \<open>Array txs\<close> (an array of transactions), or \<open>Other p\<close>: any other truthy
  value \<open>v\<close> (a non-empty string, a number other than 0, \<^verbatim>\<open>true\<close>, an object, an array
  of something else), with \<open>p\<close> the value of \<^verbatim>\<open>Math.ceil(v.length / 50)\<close> where that is an
  integer and \<open>None\<close> where it is not (\<^verbatim>\<open>NaN\<close>, as for an object without a length).
\<close>

datatype tx_field = Falsy | Array "transaction list" | Other "int option"

datatype raw_body = RawNull | RawData tx_field "string option"

datatype raw_outcome = RawNetworkError | RawInvalidJson bool | RawResponse bool raw_body

text \<open>
  What one run does, as the calls it makes in order: the state setters, \<^verbatim>\<open>toast\<close> and
  \<^verbatim>\<open>console.error\<close>, each with its argument.
\<close>

datatype action =
    SetIsLoading bool
  | SetTransactions tx_field
  | SetTotalPages "int option"
  | Toast toast
  | ConsoleError string

text \<open>
  The calls of one run of \<^verbatim>\<open>fetchTransactions\<close> (lines 31-56 and 237-262), by outcome:
  the success branch for an ok status and a truthy \<^verbatim>\<open>data.transactions\<close> (an array or
  not), the \<^verbatim>\<open>else\<close> branch, the \<^verbatim>\<open>catch\<close> block; \<^verbatim>\<open>setIsLoading(true)\<close> first and
  \<^verbatim>\<open>setIsLoading(false)\<close>, from \<^verbatim>\<open>finally\<close>, last.
\<close>

fun fetch_actions :: "string \<Rightarrow> raw_outcome \<Rightarrow> action list" where
  "fetch_actions fallback (RawResponse True (RawData (Array txs) m)) =
     [SetIsLoading True, SetTransactions (Array txs),
      SetTotalPages (Some \<lceil>real (length txs) / 50\<rceil>), SetIsLoading False]"
| "fetch_actions fallback (RawResponse True (RawData (Other p) m)) =
     [SetIsLoading True, SetTransactions (Other p), SetTotalPages p, SetIsLoading False]"
| "fetch_actions fallback (RawResponse ok (RawData t m)) =
     [SetIsLoading True,
      Toast \<lparr>title = ''Error fetching transactions'', description = js_or m fallback,
             variant = ''destructive''\<rparr>,
      SetIsLoading False]"
| "fetch_actions fallback out =
     [SetIsLoading True, ConsoleError ''Error fetching transactions:'',
      Toast \<lparr>title = ''Error fetching transactions'',
             description = ''Failed to fetch transactions.'', variant = ''destructive''\<rparr>,
      SetIsLoading False]"

definition fetchTransactions_actions :: "raw_outcome \<Rightarrow> action list" where
  "fetchTransactions_actions out = fetch_actions ''Unexpected response format.'' out"

definition fetchTransactions2_actions :: "raw_outcome \<Rightarrow> action list" where
  "fetchTransactions2_actions out = fetch_actions ''Unexpected response format'' out"

text \<open>
  The effect of one call on the state. \<open>None\<close>: the value passed does not fit the
  declared type of its cell (\<^verbatim>\<open>Transaction[]\<close>, a whole number of pages).
\<close>

fun apply_action :: "action \<Rightarrow> view_state \<Rightarrow> view_state option" where
  "apply_action (SetIsLoading b) s = Some (s\<lparr>isLoading := b\<rparr>)"
| "apply_action (SetTransactions (Array txs)) s = Some (s\<lparr>transactions := txs\<rparr>)"
| "apply_action (SetTransactions v) s = None"
| "apply_action (SetTotalPages (Some k)) s = Some (s\<lparr>totalPages := k\<rparr>)"
| "apply_action (SetTotalPages None) s = None"
| "apply_action (Toast t) s = Some (s\<lparr>toasts := toasts s @ [t]\<rparr>)"
| "apply_action (ConsoleError l) s = Some (s\<lparr>console := console s @ [l]\<rparr>)"

fun run_actions :: "action list \<Rightarrow> view_state \<Rightarrow> view_state option" where
  "run_actions [] s = Some s"
| "run_actions (a # as) s =
     (case apply_action a s of None \<Rightarrow> None | Some s' \<Rightarrow> run_actions as s')"

text \<open>The outcomes with a typed body, among all outcomes.\<close>

fun raw_of :: "fetch_outcome \<Rightarrow> raw_outcome" where
  "raw_of NetworkError = RawNetworkError"
| "raw_of (InvalidJson ok) = RawInvalidJson ok"
| "raw_of (Response ok JsonNull) = RawResponse ok RawNull"
| "raw_of (Response ok (JsonData None m)) = RawResponse ok (RawData Falsy m)"
| "raw_of (Response ok (JsonData (Some txs) m)) = RawResponse ok (RawData (Array txs) m)"



subsection \<open>Pagination buttons (first version, lines 178-199)\<close>

text \<open>
  A click on a \<^verbatim>\<open>disabled\<close> button runs no handler; otherwise the handler is
  \<^verbatim>\<open>setCurrentPage((prev) => Math.max(prev - 1, 1))\<close> for Previous and
  \<^verbatim>\<open>setCurrentPage((prev) => Math.min(prev + 1, totalPages))\<close> for Next.
\<close>

definition clickPrevious :: "view_state \<Rightarrow> view_state" where
  "clickPrevious s =
     (if currentPage s = 1 then s else s\<lparr>currentPage := max (currentPage s - 1) 1\<rparr>)"

definition clickNext :: "view_state \<Rightarrow> view_state" where
  "clickNext s =
     (if currentPage s = totalPages s then s
      else s\<lparr>currentPage := min (currentPage s + 1) (totalPages s)\<rparr>)"

text \<open>The view-state invariant of the specification.\<close>

definition page_inv :: "view_state \<Rightarrow> bool" where
  "page_inv s = (1 \<le> currentPage s \<and> currentPage s \<le> totalPages s)"

subsection \<open>Formatters\<close>

text \<open>
  \<^verbatim>\<open>String.prototype.slice(start, end)\<close>: a negative index counts from the end, both
  indices are clamped to the string, \<open>None\<close> is an omitted \<^verbatim>\<open>end\<close>.
\<close>

definition slice :: "string \<Rightarrow> int \<Rightarrow> int option \<Rightarrow> string" where
  "slice s start fin =
     (let len = int (length s);
          lo = (if start < 0 then max (len + start) 0 else min start len);
          hi = (case fin of None \<Rightarrow> len
                | Some e \<Rightarrow> if e < 0 then max (len + e) 0 else min e len)
      in take (nat (hi - lo)) (drop (nat lo) s))"

text \<open>
  \<^verbatim>\<open>if (!address || address.length < 10) return "Invalid Address";
  return `${address.slice(0, 6)}...${address.slice(-4)}`;\<close>
\<close>

definition truncateAddress :: "string \<Rightarrow> string" where
  "truncateAddress address =
     (if address = [] \<or> length address < 10 then ''Invalid Address''
      else slice address 0 (Some 6) @ ''...'' @ slice address (- 4) None)"

text \<open>
  \<^verbatim>\<open>method.match(/^([^(]+)/)\<close>: the longest run of characters other than \<^verbatim>\<open>(\<close> at the
  start of the string, which must not be empty (\<^verbatim>\<open>+\<close>); \<open>None\<close> is the \<^verbatim>\<open>null\<close> of a
  failed match, \<open>Some g\<close> carries capture group 1.
\<close>

definition match_name :: "string \<Rightarrow> string option" where
  "match_name s =
     (let g = takeWhile (\<lambda>c. c \<noteq> CHR ''('') s in if g = [] then None else Some g)"

text \<open>\<^verbatim>\<open>return match ? match[1] : method;\<close> (second version, lines 371-374).\<close>

definition simplifyMethodName :: "string \<Rightarrow> string" where
  "simplifyMethodName s = (case match_name s of Some g \<Rightarrow> g | None \<Rightarrow> s)"

text \<open>The decimal digits of a natural number, and a whole number in a template string.\<close>

fun digits :: "nat \<Rightarrow> string" where
  "digits n =
     (if n < 10 then [''0123456789'' ! n]
      else digits (n div 10) @ [''0123456789'' ! (n mod 10)])"

declare digits.simps [simp del]

definition show_int :: "int \<Rightarrow> string" where
  "show_int i = (if i < 0 then ''-'' @ digits (nat (- i)) else digits (nat i))"

text \<open>
  \<^verbatim>\<open>getRelativeTime\<close> (lines 69-82 and 277-291); \<open>now\<close> is the value of
  \<^verbatim>\<open>Date.now()\<close>, in milliseconds.
\<close>

definition getRelativeTime :: "int \<Rightarrow> int \<Rightarrow> string" where
  "getRelativeTime now ts =
     (let diff = now - ts * 1000 in
      if diff < 0 then ''Just now''
      else let seconds = diff div 1000 in
        if seconds < 60 then show_int seconds @ '' secs ago''
        else let minutes = seconds div 60 in
          if minutes < 60 then show_int minutes @ '' mins ago''
          else let hours = minutes div 60 in
            if hours < 24 then show_int hours @ '' hrs ago''
            else show_int (hours div 24) @ '' days ago'')"

subsection \<open>CSV export\<close>

text \<open>
  Errors of the JavaScript runtime. The export can throw the first, on a date that is
  not valid.
\<close>

datatype js_error = RangeError | TypeError

text \<open>
  \<^verbatim>\<open>Array.prototype.join(sep)\<close>: the elements' texts with \<open>sep\<close> between them; an element
  that is \<^verbatim>\<open>undefined\<close> (\<open>None\<close>) gives the empty text.
\<close>

definition element_text :: "string option \<Rightarrow> string" where
  "element_text x = (case x of None \<Rightarrow> [] | Some s \<Rightarrow> s)"

fun join :: "string \<Rightarrow> string option list \<Rightarrow> string" where
  "join sep [] = []"
| "join sep [x] = element_text x"
| "join sep (x # y # ys) = element_text x @ sep @ join sep (y # ys)"

text \<open>
  \<^verbatim>\<open>Number.prototype.toFixed(f)\<close> on a finite number \<open>x\<close>, as ECMAScript defines it: the
  sign, then, below \<open>10 ^ 21\<close>, the integer \<open>n\<close> nearest to \<open>x * 10 ^ f\<close> (the larger of
  two) in decimal, filled with zeros to \<open>f + 1\<close> digits, with a point before the last
  \<open>f\<close> digits. From \<open>10 ^ 21\<close> on the result is the text of \<^verbatim>\<open>Number::toString\<close>
  (exponent notation), which is not modelled: it is the parameter \<open>numberToString\<close>.
\<close>

definition toFixed :: "(real \<Rightarrow> string) \<Rightarrow> real \<Rightarrow> nat \<Rightarrow> string" where
  "toFixed numberToString x f =
     (let s = (if x < 0 then ''-'' else []); a = \<bar>x\<bar> in
      if 10 ^ 21 \<le> a then s @ numberToString a
      else
        let n = nat \<lfloor>a * 10 ^ f + 1 / 2\<rfloor>;
            m = digits n;
            m = (if f \<noteq> 0 \<and> length m \<le> f
                 then replicate (f + 1 - length m) CHR ''0'' @ m else m);
            k = length m
        in if f \<noteq> 0 then s @ take (k - f) m @ ''.'' @ drop (k - f) m else s @ m)"

text \<open>
  Year, month and day of a day number (days since 1 January 1970) in the proleptic
  Gregorian calendar, which ECMAScript's \<^verbatim>\<open>YearFromTime\<close>, \<^verbatim>\<open>MonthFromTime\<close> and
  \<^verbatim>\<open>DateFromTime\<close> compute; years, as there, are astronomical (year 0 precedes year 1).
\<close>

definition civil_from_days :: "int \<Rightarrow> int \<times> int \<times> int" where
  "civil_from_days day =
     (let z = day + 719468;
          era = z div 146097;
          doe = z mod 146097;
          yoe = (doe - doe div 1460 + doe div 36524 - doe div 146096) div 365;
          doy = doe - (365 * yoe + yoe div 4 - yoe div 100);
          mp = (5 * doy + 2) div 153;
          d = doy - (153 * mp + 2) div 5 + 1;
          m = (if mp < 10 then mp + 3 else mp - 9);
          y = yoe + era * 400 + (if m \<le> 2 then 1 else 0)
      in (y, m, d))"

text \<open>A number in decimal, filled with zeros on the left to \<open>w\<close> digits.\<close>

definition pad :: "nat \<Rightarrow> int \<Rightarrow> string" where
  "pad w i = (let ds = digits (nat i) in replicate (w - length ds) CHR ''0'' @ ds)"

text \<open>
  \<^verbatim>\<open>new Date(t).toISOString()\<close> for a time value \<open>t\<close> in milliseconds: \<^verbatim>\<open>new Date\<close> makes
  the date invalid when \<open>t\<close> is beyond 8.64e15 in magnitude, and \<^verbatim>\<open>toISOString\<close> throws
  a RangeError on an invalid date. Otherwise the text is \<^verbatim>\<open>YYYY-MM-DDTHH:mm:ss.sssZ\<close> in
  UTC, the year with a sign and six digits outside 0 to 9999.
\<close>

definition iso_text :: "int \<Rightarrow> string" where
  "iso_text t =
     (let (y, m, d) = civil_from_days (t div 86400000);
          r = t mod 86400000;
          year = (if 0 \<le> y \<and> y \<le> 9999 then pad 4 y
                  else (if y < 0 then ''-'' else ''+'') @ pad 6 \<bar>y\<bar>)
      in year @ ''-'' @ pad 2 m @ ''-'' @ pad 2 d @ ''T'' @ pad 2 (r div 3600000) @ '':'' @
         pad 2 (r div 60000 mod 60) @ '':'' @ pad 2 (r div 1000 mod 60) @ ''.'' @
         pad 3 (r mod 1000) @ ''Z'')"

definition toISOString :: "int \<Rightarrow> js_error + string" where
  "toISOString t = (if 8640000000000000 < \<bar>t\<bar> then Inl RangeError else Inr (iso_text t))"

text \<open>
  \<^verbatim>\<open>formatTimestamp\<close> (second version, lines 348-361). The text that
  \<^verbatim>\<open>new Date(t).toLocaleString('en-GB', options)\<close> gives for the time value \<open>t\<close>, with
  the options of the code (time zone Asia/Bangkok, two-digit fields, 24 hours), comes
  from the runtime's locale data: it is the parameter \<open>toLocaleString\<close>.
  \<^verbatim>\<open>.replace(',', '')\<close> removes the first comma.
\<close>

definition formatTimestamp :: "(int \<Rightarrow> string) \<Rightarrow> int \<Rightarrow> string" where
  "formatTimestamp toLocaleString ts = remove1 CHR '','' (toLocaleString (ts * 1000))"

text \<open>\<^verbatim>\<open>const headers = [...]\<close> (lines 90 and 318).\<close>

definition headers :: "string list" where
  "headers =
     [''Transaction Hash'', ''Method'', ''Block'', ''Age'', ''From'', ''To'', ''Amount'',
      ''Txn Fee'']"

text \<open>
  One row of the first version (lines 94-103), the body of \<^verbatim>\<open>transactions.map\<close>; the
  only element that can throw is the age.
\<close>

definition csv_row :: "(real \<Rightarrow> string) \<Rightarrow> transaction \<Rightarrow> js_error + string" where
  "csv_row numberToString tx =
     (case toISOString (timestamp tx * 1000) of
        Inl e \<Rightarrow> Inl e
      | Inr age \<Rightarrow>
          Inr (join '',''
            [hash tx, tx_method tx, block tx, Some age, Some (tx_from tx), Some (tx_to tx),
             Some (toFixed numberToString (amount tx) 6), fee tx]))"

text \<open>One row of the second version (lines 322-331): the age is \<^verbatim>\<open>formatTimestamp\<close>'s.\<close>

definition csv_row2 :: "(real \<Rightarrow> string) \<Rightarrow> (int \<Rightarrow> string) \<Rightarrow> transaction \<Rightarrow> string" where
  "csv_row2 numberToString toLocaleString tx =
     join '',''
       [hash tx, tx_method tx, block tx, Some (formatTimestamp toLocaleString (timestamp tx)),
        Some (tx_from tx), Some (tx_to tx), Some (toFixed numberToString (amount tx) 6),
        fee tx]"

text \<open>\<^verbatim>\<open>Array.prototype.map\<close> with a callback that can throw: the first error ends it.\<close>

fun map_result :: "('a \<Rightarrow> 'e + 'b) \<Rightarrow> 'a list \<Rightarrow> 'e + 'b list" where
  "map_result f [] = Inr []"
| "map_result f (x # xs) =
     (case f x of
        Inl e \<Rightarrow> Inl e
      | Inr y \<Rightarrow> (case map_result f xs of Inl e \<Rightarrow> Inl e | Inr ys \<Rightarrow> Inr (y # ys)))"

text \<open>
  \<^verbatim>\<open>const csvContent = [headers.join(','), ...transactions.map(...)].join('\n')\<close>, first
  and second version.
\<close>

definition csvContent :: "(real \<Rightarrow> string) \<Rightarrow> transaction list \<Rightarrow> js_error + string" where
  "csvContent numberToString txs =
     (case map_result (csv_row numberToString) txs of
        Inl e \<Rightarrow> Inl e
      | Inr rows \<Rightarrow> Inr (join [CHR 0x0A] (map Some (join '','' (map Some headers) # rows))))"

definition csvContent2 :: "(real \<Rightarrow> string) \<Rightarrow> (int \<Rightarrow> string) \<Rightarrow> transaction list \<Rightarrow> string" where
  "csvContent2 numberToString toLocaleString txs =
     join [CHR 0x0A]
       (map Some (join '','' (map Some headers) #
          map (csv_row2 numberToString toLocaleString) txs))"

text \<open>
  The file that \<^verbatim>\<open>handleDownload\<close> hands to the browser: the blob's type and content and
  the link's \<^verbatim>\<open>download\<close> attribute (in a browser that has the attribute, which the code
  tests with \<^verbatim>\<open>link.download !== undefined\<close>).
\<close>

record download =
  filename :: string
  mime_type :: string
  content :: string

definition handleDownload ::
  "(real \<Rightarrow> string) \<Rightarrow> string \<Rightarrow> transaction list \<Rightarrow> js_error + download" where
  "handleDownload numberToString address txs =
     (case csvContent numberToString txs of
        Inl e \<Rightarrow> Inl e
      | Inr c \<Rightarrow>
          Inr \<lparr>filename = address @ ''_transactions.csv'',
               mime_type = ''text/csv;charset=utf-8;'', content = c\<rparr>)"

definition handleDownload2 ::
  "(real \<Rightarrow> string) \<Rightarrow> (int \<Rightarrow> string) \<Rightarrow> string \<Rightarrow> transaction list \<Rightarrow> download" where
  "handleDownload2 numberToString toLocaleString address txs =
     \<lparr>filename = address @ ''_transactions.csv'', mime_type = ''text/csv;charset=utf-8;'',
      content = csvContent2 numberToString toLocaleString txs\<rparr>"

subsection \<open>Reading a CSV text\<close>

text \<open>
  The pieces of a text between the occurrences of a separator character: the lines of a
  file for the newline, the fields of a row for the comma.
\<close>

fun split_on :: "char \<Rightarrow> string \<Rightarrow> string list" where
  "split_on c [] = [[]]"
| "split_on c (x # xs) =
     (if x = c then [] # split_on c xs
      else (case split_on c xs of [] \<Rightarrow> [[x]] | p # ps \<Rightarrow> (x # p) # ps))"

definition file_lines :: "string \<Rightarrow> string list" where
  "file_lines s = split_on (CHR 0x0A) s"

definition row_fields :: "string \<Rightarrow> string list" where
  "row_fields s = split_on CHR '','' s"

text \<open>The header line of the specification.\<close>

definition header_line :: string where
  "header_line = ''Transaction Hash,Method,Block,Age,From,To,Amount,Txn Fee''"

text \<open>No text field of the transaction holds the character \<open>c\<close>.\<close>

definition free_of :: "char \<Rightarrow> transaction \<Rightarrow> bool" where
  "free_of c tx =
     (c \<notin> set (element_text (hash tx)) \<and> c \<notin> set (element_text (tx_method tx)) \<and>
      c \<notin> set (element_text (block tx)) \<and> c \<notin> set (tx_from tx) \<and> c \<notin> set (tx_to tx) \<and>
      c \<notin> set (element_text (fee tx)))"

text \<open>The timestamp, in milliseconds, is a time value that \<^verbatim>\<open>Date\<close> accepts.\<close>

definition in_date_range :: "transaction \<Rightarrow> bool" where
  "in_date_range tx = (\<bar>timestamp tx * 1000\<bar> \<le> 8640000000000000)"

text \<open>
  A text with exactly six decimals: an optional minus sign, at least one digit, a point,
  six digits.
\<close>

definition six_decimals :: "string \<Rightarrow> bool" where
  "six_decimals s =
     (let t = (if s \<noteq> [] \<and> hd s = CHR ''-'' then tl s else s);
          ip = takeWhile (\<lambda>c. c \<in> set ''0123456789'') t;
          r = dropWhile (\<lambda>c. c \<in> set ''0123456789'') t
      in ip \<noteq> [] \<and> r \<noteq> [] \<and> hd r = CHR ''.'' \<and> length (tl r) = 6 \<and>
         set (tl r) \<subseteq> set ''0123456789'')"

subsection \<open>What the specification says of a row\<close>

text \<open>
  An amount below \<open>10 ^ 21\<close> in magnitude, for which \<^verbatim>\<open>toFixed\<close> writes positional
  notation.
\<close>

definition small_amount :: "transaction \<Rightarrow> bool" where
  "small_amount tx = (\<bar>amount tx\<bar> < 10 ^ 21)"

text \<open>
  The eight field texts of a transaction's row, in the order of the header: hash, method,
  block, age, from, to, amount with six decimals, fee; an absent optional field is the
  empty text. The age is \<^verbatim>\<open>toISOString\<close>'s text in the first version and
  \<^verbatim>\<open>formatTimestamp\<close>'s in the second.
\<close>

definition row_texts :: "(real \<Rightarrow> string) \<Rightarrow> transaction \<Rightarrow> string list" where
  "row_texts numberToString tx =
     [element_text (hash tx), element_text (tx_method tx), element_text (block tx),
      iso_text (timestamp tx * 1000), tx_from tx, tx_to tx,
      toFixed numberToString (amount tx) 6, element_text (fee tx)]"

definition row_texts2 :: "(real \<Rightarrow> string) \<Rightarrow> (int \<Rightarrow> string) \<Rightarrow> transaction \<Rightarrow> string list" where
  "row_texts2 numberToString toLocaleString tx =
     [element_text (hash tx), element_text (tx_method tx), element_text (block tx),
      formatTimestamp toLocaleString (timestamp tx), tx_from tx, tx_to tx,
      toFixed numberToString (amount tx) 6, element_text (fee tx)]"

text \<open>The rows of a transaction list: one per transaction, its fields joined by commas.\<close>

definition expected_rows :: "(real \<Rightarrow> string) \<Rightarrow> transaction list \<Rightarrow> string list" where
  "expected_rows numberToString txs =
     map (\<lambda>tx. join '','' (map Some (row_texts numberToString tx))) txs"

definition expected_rows2 ::
  "(real \<Rightarrow> string) \<Rightarrow> (int \<Rightarrow> string) \<Rightarrow> transaction list \<Rightarrow> string list" where
  "expected_rows2 numberToString toLocaleString txs =
     map (\<lambda>tx. join '','' (map Some (row_texts2 numberToString toLocaleString tx))) txs"

subsection \<open>Sample data\<close>

text \<open>
  The transaction of the specification's CSV example,
  \<^verbatim>\<open>{hash:"0xabc", amount:1.5, fee:"0.001", timestamp:1700000000}\<close>, with empty
  sender and recipient.
\<close>

definition example_tx :: transaction where
  "example_tx =
     \<lparr>tx_from = [], tx_to = [], amount = 3 / 2, timestamp = 1700000000,
      hash = Some ''0xabc'', block = None, fee = Some ''0.001'', tx_method = None\<rparr>"

section \<open>Properties\<close>

subsection \<open>Auxiliary facts\<close>

lemma ceil_div_50: "\<lceil>real n / 50\<rceil> = (int n + 49) div 50"
proof -
  have "real n / 50 = of_int (int n) / of_int 50" by simp
  then have "\<lceil>real n / 50\<rceil> = - (- int n div 50)"
    by (simp only: ceiling_divide_eq_div)
  then show ?thesis by linarith
qed


lemma fetched_Some:
  "fetched out = Some txs \<Longrightarrow> \<exists>m. out = Response True (JsonData (Some txs) m)"
  by (induction out rule: fetched.induct) auto

lemma fetch_settle_failed:
  "fetched out = None \<Longrightarrow>
     currentPage (fetch_settle fb out s) = currentPage s \<and>
     totalPages (fetch_settle fb out s) = totalPages s \<and>
     transactions (fetch_settle fb out s) = transactions s"
  by (induction fb out s rule: fetch_settle.induct) auto

lemma fetch_settle_isLoading: "isLoading (fetch_settle fb out s) = isLoading s"
  by (induction fb out s rule: fetch_settle.induct) simp_all

lemma run_fetch_actions:
  "run_actions (fetch_actions fb (raw_of out)) s =
     Some (fetch_finally (fetch_settle fb out (fetch_begin s)))"
proof (cases out)
  case NetworkError
  then show ?thesis by (simp add: fetch_finally_def fetch_begin_def error_toast_def)
next
  case (InvalidJson ok)
  then show ?thesis by (simp add: fetch_finally_def fetch_begin_def error_toast_def)
next
  case (Response ok b)
  show ?thesis
  proof (cases b)
    case JsonNull
    with Response show ?thesis
      by (simp add: fetch_finally_def fetch_begin_def error_toast_def)
  next
    case (JsonData t m)
    with Response show ?thesis
      by (cases t; cases ok) (simp_all add: fetch_finally_def fetch_begin_def error_toast_def)
  qed
qed




lemma loading_actions:
  "\<exists>mid. fetch_actions fb out = SetIsLoading True # mid @ [SetIsLoading False] \<and>
         (\<forall>b. SetIsLoading b \<notin> set mid)"
  by (induction fb out rule: fetch_actions.induct) auto

lemma run_fetchTransactions_actions:
  "run_actions (fetchTransactions_actions (raw_of out)) s = Some (fetchTransactions out s)"
  "run_actions (fetchTransactions2_actions (raw_of out)) s = Some (fetchTransactions2 out s)"
  by (simp_all add: fetchTransactions_actions_def fetchTransactions2_actions_def
      fetchTransactions_def fetchTransactions2_def run_fetch_actions)


subsection \<open>Page count after a fetch\<close>

text \<open>
  C1, as the specification states it: after every successful fetch of \<open>count\<close>
  transactions \<open>totalPages = max(1, ceil(count / 50))\<close>, clamped to 1 for \<open>count = 0\<close>.
  The code stores \<^verbatim>\<open>Math.ceil(count / 50)\<close> unclamped: a successful fetch of the empty
  list, from the initial state, leaves \<open>totalPages = 0\<close>.
\<close>

theorem total_pages_not_clamped:
  "totalPages (fetchTransactions (Response True (JsonData (Some []) None)) initial_state)
     \<noteq> max 1 \<lceil>real (length ([] :: transaction list)) / 50\<rceil>"
  by (simp add: fetchTransactions_def fetch_finally_def fetch_begin_def initial_state_def)

text \<open>
  C1, amended: after every successful fetch of \<open>count\<close> transactions, in both versions,
  the list is the fetched one and \<open>totalPages = ceil(count / 50) = (count + 49) div 50\<close>;
  this is \<open>max(1, ceil(count / 50))\<close> exactly when \<open>count \<ge> 1\<close>, and it is 0 when
  \<open>count = 0\<close>.
\<close>

theorem total_pages_after_fetch:
  assumes "fetched out = Some txs"
  shows "transactions (fetchTransactions out s) = txs \<and>
         totalPages (fetchTransactions out s) = \<lceil>real (length txs) / 50\<rceil> \<and>
         transactions (fetchTransactions2 out s) = txs \<and>
         totalPages (fetchTransactions2 out s) = \<lceil>real (length txs) / 50\<rceil> \<and>
         \<lceil>real (length txs) / 50\<rceil> = (int (length txs) + 49) div 50 \<and>
         (totalPages (fetchTransactions out s) = max 1 \<lceil>real (length txs) / 50\<rceil>
            \<longleftrightarrow> 1 \<le> length txs) \<and>
         (length txs = 0 \<longrightarrow> totalPages (fetchTransactions out s) = 0)"
proof -
  from assms obtain m where out: "out = Response True (JsonData (Some txs) m)"
    by (auto dest: fetched_Some)
  have tx: "transactions (fetchTransactions out s) = txs"
    "transactions (fetchTransactions2 out s) = txs"
    by (simp_all add: out fetchTransactions_def fetchTransactions2_def fetch_finally_def)
  have tp: "totalPages (fetchTransactions out s) = \<lceil>real (length txs) / 50\<rceil>"
    "totalPages (fetchTransactions2 out s) = \<lceil>real (length txs) / 50\<rceil>"
    by (simp_all add: out fetchTransactions_def fetchTransactions2_def fetch_finally_def)
  have c: "\<lceil>real (length txs) / 50\<rceil> = (int (length txs) + 49) div 50"
    by (rule ceil_div_50)
  have clamp: "totalPages (fetchTransactions out s) = max 1 \<lceil>real (length txs) / 50\<rceil>
          \<longleftrightarrow> 1 \<le> length txs"
    unfolding tp c by (cases txs) simp_all
  have zero: "length txs = 0 \<longrightarrow> totalPages (fetchTransactions out s) = 0"
    unfolding tp c by simp
  from tx tp c clamp zero show ?thesis by blast
qed

theorem total_pages_after_fetch_witness:
  "totalPages
     (fetchTransactions (Response True (JsonData (Some (replicate 120 example_tx)) None))
        initial_state) = 3"
  using total_pages_after_fetch
    [of "Response True (JsonData (Some (replicate 120 example_tx)) None)"
        "replicate 120 example_tx" initial_state]
  by simp

subsection \<open>The page invariant\<close>

text \<open>
  C2, as the specification states it: \<open>1 \<le> currentPage \<le> totalPages\<close> holds initially
  and every operation preserves it. A successful fetch does not: it overwrites
  \<open>totalPages\<close> and leaves \<open>currentPage\<close> alone. After a fetch of 120 transactions and
  two clicks on Next the view is on page 3 of 3; a fetch that then returns one
  transaction leaves page 3 of 1. From the initial state, a fetch that returns no
  transaction leaves page 1 of 0.
\<close>

theorem page_inv_broken_by_fetch:
  "page_inv
     (clickNext (clickNext
        (fetchTransactions (Response True (JsonData (Some (replicate 120 example_tx)) None))
           initial_state))) \<and>
   currentPage
     (clickNext (clickNext
        (fetchTransactions (Response True (JsonData (Some (replicate 120 example_tx)) None))
           initial_state))) = 3 \<and>
   \<not> page_inv
     (fetchTransactions (Response True (JsonData (Some [example_tx]) None))
        (clickNext (clickNext
           (fetchTransactions
              (Response True (JsonData (Some (replicate 120 example_tx)) None))
              initial_state)))) \<and>
   page_inv initial_state \<and>
   \<not> page_inv (fetchTransactions (Response True (JsonData (Some []) None)) initial_state)"
  by (simp add: page_inv_def fetchTransactions_def fetch_finally_def fetch_begin_def
      clickNext_def initial_state_def)

text \<open>
  C2, amended: the invariant holds in the initial state and is preserved by a failed
  fetch (both versions), by a click on Previous and by a click on Next. A successful
  fetch of \<open>count\<close> transactions leaves \<open>currentPage\<close> as it was, so the invariant holds
  after it exactly when \<open>1 \<le> currentPage \<le> ceil(count / 50)\<close>.
\<close>

theorem page_inv_preserved:
  "page_inv initial_state \<and>
   (page_inv s \<longrightarrow> page_inv (clickPrevious s)) \<and>
   (page_inv s \<longrightarrow> page_inv (clickNext s)) \<and>
   (page_inv s \<and> fetched out = None \<longrightarrow>
      page_inv (fetchTransactions out s) \<and> page_inv (fetchTransactions2 out s)) \<and>
   (fetched out = Some txs \<longrightarrow>
      currentPage (fetchTransactions out s) = currentPage s \<and>
      currentPage (fetchTransactions2 out s) = currentPage s \<and>
      (page_inv (fetchTransactions out s) \<longleftrightarrow>
         1 \<le> currentPage s \<and> currentPage s \<le> \<lceil>real (length txs) / 50\<rceil>) \<and>
      (page_inv (fetchTransactions2 out s) \<longleftrightarrow>
         1 \<le> currentPage s \<and> currentPage s \<le> \<lceil>real (length txs) / 50\<rceil>))"
proof -
  have init: "page_inv initial_state"
    by (simp add: page_inv_def initial_state_def)
  have prev: "page_inv s \<longrightarrow> page_inv (clickPrevious s)"
    by (simp add: page_inv_def clickPrevious_def)
  have nxt: "page_inv s \<longrightarrow> page_inv (clickNext s)"
    by (simp add: page_inv_def clickNext_def)
  have failed: "page_inv s \<and> fetched out = None \<longrightarrow>
      page_inv (fetchTransactions out s) \<and> page_inv (fetchTransactions2 out s)"
    by (simp add: page_inv_def fetchTransactions_def fetchTransactions2_def
        fetch_finally_def fetch_begin_def fetch_settle_failed)
  have ok: "fetched out = Some txs \<longrightarrow>
      currentPage (fetchTransactions out s) = currentPage s \<and>
      currentPage (fetchTransactions2 out s) = currentPage s \<and>
      (page_inv (fetchTransactions out s) \<longleftrightarrow>
         1 \<le> currentPage s \<and> currentPage s \<le> \<lceil>real (length txs) / 50\<rceil>) \<and>
      (page_inv (fetchTransactions2 out s) \<longleftrightarrow>
         1 \<le> currentPage s \<and> currentPage s \<le> \<lceil>real (length txs) / 50\<rceil>)"
    by (auto simp: page_inv_def fetchTransactions_def fetchTransactions2_def
        fetch_finally_def fetch_begin_def dest!: fetched_Some)
  from init prev nxt failed ok show ?thesis by blast
qed

theorem page_inv_preserved_witness:
  "page_inv initial_state \<and>
   page_inv (clickPrevious initial_state) \<and>
   page_inv (clickNext initial_state) \<and>
   page_inv (fetchTransactions NetworkError initial_state) \<and>
   page_inv (fetchTransactions2 NetworkError initial_state) \<and>
   page_inv (fetchTransactions (Response True (JsonData (Some [example_tx]) None))
      initial_state)"
  using page_inv_preserved [of initial_state NetworkError "[]"]
    page_inv_preserved
      [of initial_state "Response True (JsonData (Some [example_tx]) None)" "[example_tx]"]
  by (simp add: initial_state_def)

subsection \<open>Loading flag\<close>

text \<open>
  C8: every run of \<^verbatim>\<open>fetchTransactions\<close>, whatever the outcome and the body (success,
  non-ok status, unusable body, network error), in both versions, begins with
  \<^verbatim>\<open>setIsLoading(true)\<close>, ends with \<^verbatim>\<open>setIsLoading(false)\<close> and does not touch the flag in
  between. On the state, the run is these calls one after the other: \<open>isLoading\<close> is
  true after the first, still true when the request has settled, and false at the end.
\<close>

theorem loading_flag_cycle:
  "(\<exists>mid. fetchTransactions_actions raw = SetIsLoading True # mid @ [SetIsLoading False] \<and>
          (\<forall>b. SetIsLoading b \<notin> set mid)) \<and>
   (\<exists>mid. fetchTransactions2_actions raw = SetIsLoading True # mid @ [SetIsLoading False] \<and>
          (\<forall>b. SetIsLoading b \<notin> set mid)) \<and>
   run_actions (fetchTransactions_actions (raw_of out)) s = Some (fetchTransactions out s) \<and>
   run_actions (fetchTransactions2_actions (raw_of out)) s = Some (fetchTransactions2 out s) \<and>
   fetchTransactions out s =
     fetch_finally (fetch_settle ''Unexpected response format.'' out (fetch_begin s)) \<and>
   fetchTransactions2 out s =
     fetch_finally (fetch_settle ''Unexpected response format'' out (fetch_begin s)) \<and>
   isLoading (fetch_begin s) \<and>
   isLoading (fetch_settle fb out (fetch_begin s)) \<and>
   \<not> isLoading (fetchTransactions out s) \<and>
   \<not> isLoading (fetchTransactions2 out s)"
proof -
  have tr: "\<exists>mid. fetchTransactions_actions raw = SetIsLoading True # mid @ [SetIsLoading False] \<and>
          (\<forall>b. SetIsLoading b \<notin> set mid)"
    "\<exists>mid. fetchTransactions2_actions raw = SetIsLoading True # mid @ [SetIsLoading False] \<and>
          (\<forall>b. SetIsLoading b \<notin> set mid)"
    unfolding fetchTransactions_actions_def fetchTransactions2_actions_def
    by (rule loading_actions)+
  have tie: "fetchTransactions out s =
     fetch_finally (fetch_settle ''Unexpected response format.'' out (fetch_begin s))"
    "fetchTransactions2 out s =
     fetch_finally (fetch_settle ''Unexpected response format'' out (fetch_begin s))"
    by (simp_all add: fetchTransactions_def fetchTransactions2_def)
  have ph: "isLoading (fetch_begin s)" "isLoading (fetch_settle fb out (fetch_begin s))"
    "\<not> isLoading (fetchTransactions out s)" "\<not> isLoading (fetchTransactions2 out s)"
    by (simp_all add: fetch_settle_isLoading fetchTransactions_def fetchTransactions2_def
        fetch_finally_def fetch_begin_def)
  show ?thesis by (intro conjI tr tie ph run_fetchTransactions_actions)
qed


theorem loading_flag_cycle_witness:
  "fetchTransactions_actions (RawResponse True (RawData (Array (replicate 120 example_tx)) None)) =
     [SetIsLoading True, SetTransactions (Array (replicate 120 example_tx)), SetTotalPages (Some 3),
      SetIsLoading False] \<and>
   isLoading (fetch_begin initial_state) \<and>
   \<not> isLoading (fetchTransactions (Response False (JsonData None (Some ''server error'')))
       initial_state) \<and>
   \<not> isLoading (fetchTransactions2 (InvalidJson True) (fetch_begin initial_state))"
proof -
  note A = loading_flag_cycle
      [of "RawResponse True (RawData (Array (replicate 120 example_tx)) None)"
          "Response False (JsonData None (Some ''server error''))" initial_state "[]"]
  note B = loading_flag_cycle
      [of RawNetworkError "InvalidJson True" "fetch_begin initial_state" "[]"]
  have a: "fetchTransactions_actions (RawResponse True (RawData (Array (replicate 120 example_tx)) None)) =
     [SetIsLoading True, SetTransactions (Array (replicate 120 example_tx)), SetTotalPages (Some 3),
      SetIsLoading False]"
    by (simp add: fetchTransactions_actions_def)
  from A have b: "isLoading (fetch_begin initial_state)"
    by blast
  from A have c: "\<not> isLoading
      (fetchTransactions (Response False (JsonData None (Some ''server error'')))
         initial_state)"
    by blast
  from B have d: "\<not> isLoading
      (fetchTransactions2 (InvalidJson True) (fetch_begin initial_state))"
    by blast
  from a b c d show ?thesis by (intro conjI)
qed

subsection \<open>Frame of the pagination buttons\<close>

text \<open>
  C10: a click on Previous or on Next changes nothing but \<open>currentPage\<close>: the state after
  the click is the state before it with \<open>currentPage\<close> updated, so the transaction list,
  \<open>totalPages\<close> and \<open>isLoading\<close> are unchanged.
\<close>

theorem pagination_frame:
  "clickPrevious s = s\<lparr>currentPage := currentPage (clickPrevious s)\<rparr> \<and>
   clickNext s = s\<lparr>currentPage := currentPage (clickNext s)\<rparr> \<and>
   transactions (clickPrevious s) = transactions s \<and>
   totalPages (clickPrevious s) = totalPages s \<and>
   isLoading (clickPrevious s) = isLoading s \<and>
   transactions (clickNext s) = transactions s \<and>
   totalPages (clickNext s) = totalPages s \<and>
   isLoading (clickNext s) = isLoading s"
  by (simp add: clickPrevious_def clickNext_def)

theorem pagination_frame_witness:
  "clickNext (initial_state\<lparr>totalPages := 3\<rparr>)
     = initial_state\<lparr>totalPages := 3, currentPage := 2\<rparr> \<and>
   clickPrevious (initial_state\<lparr>totalPages := 3, currentPage := 2\<rparr>)
     = initial_state\<lparr>totalPages := 3\<rparr>"
  using pagination_frame [of "initial_state\<lparr>totalPages := 3\<rparr>"]
    pagination_frame [of "initial_state\<lparr>totalPages := 3, currentPage := 2\<rparr>"]
  by (simp add: clickPrevious_def clickNext_def initial_state_def)

subsection \<open>truncateAddress\<close>

text \<open>
  C6: \<open>truncateAddress\<close> returns \<open>Invalid Address\<close> for every string shorter than 10
  characters (the empty string among them); for every string of at least 10 characters
  it returns the first 6 characters, then \<open>...\<close>, then the last 4 characters, 13
  characters in all.
\<close>

theorem truncateAddress_spec:
  "(length a < 10 \<longrightarrow> truncateAddress a = ''Invalid Address'') \<and>
   (10 \<le> length a \<longrightarrow>
      truncateAddress a = take 6 a @ ''...'' @ drop (length a - 4) a \<and>
      length (truncateAddress a) = 13)"
  by (auto simp: truncateAddress_def slice_def Let_def nat_diff_distrib')

theorem truncateAddress_spec_witness:
  "truncateAddress ''0x1234567890abcdef'' = ''0x1234...cdef'' \<and>
   length (truncateAddress ''0x1234567890abcdef'') = 13 \<and>
   truncateAddress ''0x1234'' = ''Invalid Address'' \<and>
   truncateAddress [] = ''Invalid Address''"
  using truncateAddress_spec [of "''0x1234567890abcdef''"]
    truncateAddress_spec [of "''0x1234''"] truncateAddress_spec [of "[]"]
  by simp

subsection \<open>simplifyMethodName\<close>

text \<open>
  C7, as the specification states it: for every input, \<open>simplifyMethodName\<close> returns the
  prefix up to, and without, the first \<open>(\<close>. For an input that starts with \<open>(\<close> that
  prefix is empty, the regular expression (which asks for at least one character) does
  not match, and the code returns the input unchanged.
\<close>

theorem simplifyMethodName_leading_paren:
  "simplifyMethodName ''(uint256)'' = ''(uint256)'' \<and>
   takeWhile (\<lambda>c. c \<noteq> CHR ''('') ''(uint256)'' = [] \<and>
   simplifyMethodName ''(uint256)'' \<noteq> takeWhile (\<lambda>c. c \<noteq> CHR ''('') ''(uint256)''"
  by (simp add: simplifyMethodName_def match_name_def)

text \<open>
  C7, amended: for every input that does not start with \<open>(\<close>, \<open>simplifyMethodName\<close>
  returns the prefix of the input up to, and without, the first \<open>(\<close> (what follows the
  result in the input is empty or starts with \<open>(\<close>, and the result holds no \<open>(\<close>), which
  is the whole input when it holds no \<open>(\<close>; an input that starts with \<open>(\<close> is returned
  unchanged.
\<close>

theorem simplifyMethodName_spec:
  "(s = [] \<or> hd s \<noteq> CHR ''('' \<longrightarrow>
      simplifyMethodName s = takeWhile (\<lambda>c. c \<noteq> CHR ''('') s \<and>
      CHR ''('' \<notin> set (simplifyMethodName s) \<and>
      (\<exists>rest. s = simplifyMethodName s @ rest \<and> (rest = [] \<or> hd rest = CHR ''(''))) \<and>
   (CHR ''('' \<notin> set s \<longrightarrow> simplifyMethodName s = s) \<and>
   (s \<noteq> [] \<and> hd s = CHR ''('' \<longrightarrow> simplifyMethodName s = s)"
proof -
  let ?g = "takeWhile (\<lambda>c. c \<noteq> CHR ''('') s"
  have eq: "simplifyMethodName s = (if ?g = [] then s else ?g)"
    by (simp add: simplifyMethodName_def match_name_def)
  have split: "s = ?g @ dropWhile (\<lambda>c. c \<noteq> CHR ''('') s"
    by simp
  have rest: "dropWhile (\<lambda>c. c \<noteq> CHR ''('') s = [] \<or>
      hd (dropWhile (\<lambda>c. c \<noteq> CHR ''('') s) = CHR ''(''"
    using hd_dropWhile [of "\<lambda>c. c \<noteq> CHR ''(''" s] by blast
  have nop: "CHR ''('' \<notin> set ?g"
    by (auto dest: set_takeWhileD)
  have a: "s = [] \<or> hd s \<noteq> CHR ''('' \<longrightarrow> simplifyMethodName s = ?g"
    unfolding eq by (cases s) auto
  have b: "CHR ''('' \<notin> set s \<longrightarrow> simplifyMethodName s = s"
    unfolding eq by (auto simp: takeWhile_eq_all_conv)
  have c: "s \<noteq> [] \<and> hd s = CHR ''('' \<longrightarrow> simplifyMethodName s = s"
    unfolding eq by (cases s) auto
  from a b c split rest nop show ?thesis by metis
qed

theorem simplifyMethodName_spec_witness:
  "simplifyMethodName ''transfer(address,uint256)'' = ''transfer'' \<and>
   simplifyMethodName ''transfer'' = ''transfer'' \<and>
   simplifyMethodName ''(bytes)'' = ''(bytes)''"
  using simplifyMethodName_spec [of "''transfer(address,uint256)''"]
    simplifyMethodName_spec [of "''transfer''"] simplifyMethodName_spec [of "''(bytes)''"]
  by simp

subsection \<open>Failed fetches\<close>







subsection \<open>getRelativeTime\<close>

lemma relative_buckets:
  assumes "ts * 1000 \<le> now"
  shows "getRelativeTime now ts =
      (let e = (now - ts * 1000) div 1000 in
       if e < 60 then show_int e @ '' secs ago''
       else if e < 3600 then show_int (e div 60) @ '' mins ago''
       else if e < 86400 then show_int (e div 3600) @ '' hrs ago''
       else show_int (e div 86400) @ '' days ago'')"
proof -
  define e where "e = (now - ts * 1000) div 1000"
  have m: "e div 60 < 60 \<longleftrightarrow> e < 3600" by linarith
  have h: "e div 60 div 60 = e div 3600" by (simp add: div_mult2_eq[symmetric])
  have h2: "e div 3600 < 24 \<longleftrightarrow> e < 86400" by linarith
  have d: "e div 3600 div 24 = e div 86400" by (simp add: div_mult2_eq[symmetric])
  show ?thesis
    using assms unfolding getRelativeTime_def Let_def e_def[symmetric]
    by (simp add: m h h2 d)
qed

text \<open>
  C5: \<open>getRelativeTime\<close> returns \<open>Just now\<close> for every timestamp strictly after the
  current time; otherwise, with \<open>e\<close> the whole seconds elapsed, it shows \<open>e\<close> in seconds
  below a minute, whole minutes below an hour, whole hours below a day and whole days
  from there on: one number and one unit, never two. 30 s elapsed give \<open>30 secs ago\<close>,
  3600 s \<open>1 hrs ago\<close>, 90000 s \<open>1 days ago\<close> (whatever the milliseconds \<open>r\<close> of the
  current time).
\<close>

theorem getRelativeTime_spec:
  "(now < ts * 1000 \<longrightarrow> getRelativeTime now ts = ''Just now'') \<and>
   (ts * 1000 \<le> now \<longrightarrow>
      getRelativeTime now ts =
        (let e = (now - ts * 1000) div 1000 in
         if e < 60 then show_int e @ '' secs ago''
         else if e < 3600 then show_int (e div 60) @ '' mins ago''
         else if e < 86400 then show_int (e div 3600) @ '' hrs ago''
         else show_int (e div 86400) @ '' days ago'') \<and>
      (\<exists>n u. u \<in> set [''secs'', ''mins'', ''hrs'', ''days''] \<and>
         getRelativeTime now ts = digits n @ '' '' @ u @ '' ago'')) \<and>
   (0 \<le> r \<and> r < 1000 \<longrightarrow>
      getRelativeTime ((ts + 30) * 1000 + r) ts = ''30 secs ago'' \<and>
      getRelativeTime ((ts + 3600) * 1000 + r) ts = ''1 hrs ago'' \<and>
      getRelativeTime ((ts + 90000) * 1000 + r) ts = ''1 days ago'')"
proof -
  have fut: "now < ts * 1000 \<longrightarrow> getRelativeTime now ts = ''Just now''"
    by (simp add: getRelativeTime_def)
  have one: "\<exists>n u. u \<in> set [''secs'', ''mins'', ''hrs'', ''days''] \<and>
         getRelativeTime now ts = digits n @ '' '' @ u @ '' ago''" if "ts * 1000 \<le> now"
  proof -
    define e where "e = (now - ts * 1000) div 1000"
    have e0: "0 \<le> e" using that by (simp add: e_def)
    then have s: "\<And>k. 0 < k \<Longrightarrow> show_int (e div k) = digits (nat (e div k))"
      by (simp add: show_int_def pos_imp_zdiv_neg_iff)
    have s0: "show_int e = digits (nat e)" using e0 by (simp add: show_int_def)
    show ?thesis
      unfolding relative_buckets[OF that] Let_def e_def[symmetric]
      by (auto simp: s s0)
  qed
  have ex: "getRelativeTime ((ts + 30) * 1000 + r) ts = ''30 secs ago'' \<and>
      getRelativeTime ((ts + 3600) * 1000 + r) ts = ''1 hrs ago'' \<and>
      getRelativeTime ((ts + 90000) * 1000 + r) ts = ''1 days ago''" if "0 \<le> r \<and> r < 1000"
  proof -
    have "((ts + 30) * 1000 + r - ts * 1000) div 1000 = 30"
      "((ts + 3600) * 1000 + r - ts * 1000) div 1000 = 3600"
      "((ts + 90000) * 1000 + r - ts * 1000) div 1000 = 90000"
    proof -
      from that have r: "0 \<le> r" "r < 1000" by simp_all
      have k: "(k * 1000 + r) div 1000 = k" for k :: int
        using r by (simp add: div_pos_pos_trivial)
      have "(ts + 30) * 1000 + r - ts * 1000 = 30 * 1000 + r"
        "(ts + 3600) * 1000 + r - ts * 1000 = 3600 * 1000 + r"
        "(ts + 90000) * 1000 + r - ts * 1000 = 90000 * 1000 + r"
        by (simp_all add: algebra_simps)
      then show "((ts + 30) * 1000 + r - ts * 1000) div 1000 = 30"
        "((ts + 3600) * 1000 + r - ts * 1000) div 1000 = 3600"
        "((ts + 90000) * 1000 + r - ts * 1000) div 1000 = 90000"
        by (simp_all only: k)
    qed
    then show ?thesis using that
      by (simp add: relative_buckets show_int_def digits.simps)
  qed
  from fut one ex relative_buckets show ?thesis by blast
qed

theorem getRelativeTime_spec_witness:
  "getRelativeTime 1700000030000 1700000000 = ''30 secs ago'' \<and>
   getRelativeTime 1700000000000 1700000300 = ''Just now'' \<and>
   getRelativeTime 1700000300999 1700000000 = ''5 mins ago''"
  using getRelativeTime_spec [of 1700000030000 1700000000 0]
    getRelativeTime_spec [of 1700000000000 1700000300 0]
    getRelativeTime_spec [of 1700000300999 1700000000 0]
  by (simp add: show_int_def digits.simps)

subsection \<open>Facts about the CSV text\<close>

lemma digits_set: "set (digits n) \<subseteq> set ''0123456789''"
proof (induction n rule: digits.induct)
  case (1 n)
  have nth: "''0123456789'' ! k \<in> set ''0123456789''" if "k < 10" for k
    using that by (intro nth_mem) simp
  show ?case
  proof (cases "n < 10")
    case True
    then show ?thesis using nth [of n] by (subst digits.simps) simp
  next
    case False
    have "n mod 10 < 10" by simp
    with False 1 nth [of "n mod 10"] show ?thesis by (subst digits.simps) simp
  qed
qed

lemma digits_nonempty: "digits n \<noteq> []"
  by (subst digits.simps) simp

lemma pad_set: "set (pad w i) \<subseteq> set ''0123456789''"
proof -
  define D where "D = set ''0123456789''"
  have z: "CHR ''0'' \<in> D" by (simp add: D_def)
  have d: "set (digits (nat i)) \<subseteq> D" unfolding D_def by (rule digits_set)
  have "set (pad w i) \<subseteq> D"
    using z d by (auto simp: pad_def Let_def)
  then show ?thesis by (simp only: D_def)
qed

lemma iso_text_set: "set (iso_text t) \<subseteq> set ''0123456789-+T:.Z''"
proof -
  define E where "E = set ''0123456789-+T:.Z''"
  have "set ''0123456789'' \<subseteq> E" by (simp add: E_def)
  then have p: "set (pad w i) \<subseteq> E" for w i
    using pad_set [of w i] by (rule order_trans [rotated])
  have c: "set ''-'' \<subseteq> E" "set ''+'' \<subseteq> E" "set ''T'' \<subseteq> E" "set '':'' \<subseteq> E"
    "set ''.'' \<subseteq> E" "set ''Z'' \<subseteq> E"
    by (simp_all add: E_def)
  have "set (iso_text t) \<subseteq> E"
    unfolding iso_text_def Let_def split_def set_append
    using c by (auto dest: subsetD [OF p])
  then show ?thesis by (simp only: E_def)
qed


lemma toFixed_shape:
  assumes "\<bar>x\<bar> < 10 ^ 21"
  shows "\<exists>ip fp. toFixed nts x 6 = (if x < 0 then ''-'' else []) @ ip @ ''.'' @ fp \<and>
           ip \<noteq> [] \<and> set ip \<subseteq> set ''0123456789'' \<and>
           length fp = 6 \<and> set fp \<subseteq> set ''0123456789''"
proof -
  define D where "D = set ''0123456789''"
  define n where "n = nat \<lfloor>\<bar>x\<bar> * 10 ^ 6 + 1 / 2\<rfloor>"
  define m where "m = (if length (digits n) \<le> 6
     then replicate (7 - length (digits n)) CHR ''0'' @ digits n else digits n)"
  have z: "CHR ''0'' \<in> D" by (simp add: D_def)
  have d: "set (digits n) \<subseteq> D" unfolding D_def by (rule digits_set)
  have len: "7 \<le> length m" by (auto simp: m_def)
  have dig: "set m \<subseteq> D"
    using z d by (auto simp: m_def)
  have eq: "toFixed nts x 6 =
      (if x < 0 then ''-'' else []) @ take (length m - 6) m @ ''.'' @ drop (length m - 6) m"
    using assms unfolding toFixed_def Let_def n_def [symmetric]
    by (simp add: m_def)
  have "take (length m - 6) m \<noteq> []" using len by auto
  moreover have "length (drop (length m - 6) m) = 6" using len by simp
  moreover have "set (take (length m - 6) m) \<subseteq> D"
    using dig set_take_subset [of "length m - 6" m] by (rule order_trans [rotated])
  moreover have "set (drop (length m - 6) m) \<subseteq> D"
    using dig set_drop_subset [of "length m - 6" m] by (rule order_trans [rotated])
  ultimately show ?thesis unfolding D_def using eq by blast
qed


lemma six_decimalsI:
  assumes s: "s = sg @ ip @ ''.'' @ fp" and sg: "sg = ''-'' \<or> sg = []" and ne: "ip \<noteq> []"
    and ip: "set ip \<subseteq> set ''0123456789''" and len: "length fp = 6"
    and fp: "set fp \<subseteq> set ''0123456789''"
  shows "six_decimals s"
proof -
  define D where "D = set ''0123456789''"
  have nd: "CHR ''-'' \<notin> D" "CHR ''.'' \<notin> D" by (simp_all add: D_def)
  from ne obtain a ip' where c: "ip = a # ip'" by (cases ip) auto
  with ip have "a \<in> D" by (simp add: D_def)
  with nd have a: "a \<noteq> CHR ''-''" by auto
  have t: "(if s \<noteq> [] \<and> hd s = CHR ''-'' then tl s else s) = ip @ ''.'' @ fp"
    using sg
  proof
    assume "sg = ''-''"
    then show ?thesis by (simp add: s)
  next
    assume "sg = []"
    then show ?thesis using a by (simp add: s c)
  qed
  have all: "\<And>x. x \<in> set ip \<Longrightarrow> x \<in> D" using ip unfolding D_def by (rule subsetD)
  have tw: "takeWhile (\<lambda>c. c \<in> D) (ip @ ''.'' @ fp) = ip"
    using all nd by (simp add: takeWhile_append2)
  have dw: "dropWhile (\<lambda>c. c \<in> D) (ip @ ''.'' @ fp) = ''.'' @ fp"
    using all nd by (simp add: dropWhile_append2)
  have "six_decimals s = (ip \<noteq> [] \<and> ''.'' @ fp \<noteq> [] \<and> hd (''.'' @ fp) = CHR ''.'' \<and>
      length (tl (''.'' @ fp)) = 6 \<and> set (tl (''.'' @ fp)) \<subseteq> D)"
    unfolding six_decimals_def Let_def t D_def [symmetric] tw dw ..
  then show ?thesis using ne len fp by (simp add: D_def)
qed

lemma toFixed_six_decimals: "\<bar>x\<bar> < 10 ^ 21 \<Longrightarrow> six_decimals (toFixed nts x 6)"
proof -
  assume a: "\<bar>x\<bar> < 10 ^ 21"
  define sg where "sg = (if x < 0 then ''-'' else [])"
  from toFixed_shape [OF a, of nts] obtain ip fp where
    s: "toFixed nts x 6 = sg @ ip @ ''.'' @ fp" and
    r: "ip \<noteq> []" "set ip \<subseteq> set ''0123456789''" "length fp = 6"
      "set fp \<subseteq> set ''0123456789''"
    unfolding sg_def by blast
  have sg: "sg = ''-'' \<or> sg = []" by (simp add: sg_def)
  show ?thesis by (rule six_decimalsI [OF s sg r])
qed

lemma toFixed_set:
  assumes "\<bar>x\<bar> < 10 ^ 21"
  shows "set (toFixed nts x 6) \<subseteq> set ''0123456789-.''"
proof -
  define E where "E = set ''0123456789-.''"
  from toFixed_shape [OF assms, of nts] obtain ip fp where
    s: "toFixed nts x 6 = (if x < 0 then ''-'' else []) @ ip @ ''.'' @ fp" and
    r: "set ip \<subseteq> set ''0123456789''" "set fp \<subseteq> set ''0123456789''"
    by blast
  have "set ''0123456789'' \<subseteq> E" by (simp add: E_def)
  with r have "set ip \<subseteq> E" "set fp \<subseteq> E" by (blast intro: order_trans)+
  moreover have "CHR ''-'' \<in> E" "CHR ''.'' \<in> E" by (simp_all add: E_def)
  ultimately have "set (toFixed nts x 6) \<subseteq> E" unfolding s by auto
  then show ?thesis by (simp only: E_def)
qed


lemma split_on_none: "c \<notin> set x \<Longrightarrow> split_on c x = [x]"
  by (induction x) auto

lemma split_on_sep: "c \<notin> set x \<Longrightarrow> split_on c (x @ c # rest) = x # split_on c rest"
  by (induction x) auto

lemma split_on_join:
  "xs \<noteq> [] \<Longrightarrow> \<forall>x\<in>set xs. c \<notin> set x \<Longrightarrow> split_on c (join [c] (map Some xs)) = xs"
proof (induction xs)
  case Nil
  then show ?case by simp
next
  case (Cons x xs)
  show ?case
  proof (cases xs)
    case Nil
    with Cons.prems show ?thesis by (simp add: element_text_def split_on_none)
  next
    case (Cons y ys)
    with Cons.prems Cons.IH show ?thesis
      by (simp add: element_text_def split_on_sep)
  qed
qed

lemma join_set:
  "set (join sep xs) \<subseteq> set sep \<union> (\<Union>x\<in>set xs. set (element_text x))"
  by (induction sep xs rule: join.induct) auto

lemma map_result_Inr:
  "\<forall>x\<in>set xs. f x = Inr (g x) \<Longrightarrow> map_result f xs = Inr (map g xs)"
  by (induction xs) auto

lemma header_join: "join '','' (map Some headers) = header_line"
  by (simp add: headers_def header_line_def element_text_def)

lemma csv_row_in_range:
  "in_date_range tx \<Longrightarrow> csv_row nts tx = Inr (join '','' (map Some (row_texts nts tx)))"
  by (simp add: csv_row_def toISOString_def in_date_range_def row_texts_def element_text_def)

lemma csv_row_out_of_range: "\<not> in_date_range tx \<Longrightarrow> csv_row nts tx = Inl RangeError"
  by (simp add: csv_row_def toISOString_def in_date_range_def)

lemma csv_row2_texts: "csv_row2 nts loc tx = join '','' (map Some (row_texts2 nts loc tx))"
  by (simp add: csv_row2_def row_texts2_def element_text_def)

lemma map_result_Inl:
  "\<exists>x\<in>set xs. f x = Inl e \<Longrightarrow> \<forall>x\<in>set xs. f x = Inl e \<or> (\<exists>y. f x = Inr y) \<Longrightarrow>
     map_result f xs = Inl e"
proof (induction xs)
  case Nil
  then show ?case by simp
next
  case (Cons a xs)
  show ?case
  proof (cases "f a")
    case (Inl e')
    with Cons.prems(2) have "e' = e" by auto
    with Inl show ?thesis by simp
  next
    case (Inr y)
    with Cons.prems(1) have "\<exists>x\<in>set xs. f x = Inl e" by auto
    moreover from Cons.prems(2) have "\<forall>x\<in>set xs. f x = Inl e \<or> (\<exists>y. f x = Inr y)" by simp
    ultimately have "map_result f xs = Inl e" by (rule Cons.IH)
    with Inr show ?thesis by simp
  qed
qed

lemma csvContent_in_range:
  assumes "list_all in_date_range txs"
  shows "csvContent nts txs =
    Inr (join [CHR 0x0A] (map Some (header_line # expected_rows nts txs)))"
proof -
  have "\<forall>tx\<in>set txs. csv_row nts tx = Inr (join '','' (map Some (row_texts nts tx)))"
    using assms by (simp add: list_all_iff csv_row_in_range)
  then have "map_result (csv_row nts) txs = Inr (expected_rows nts txs)"
    unfolding expected_rows_def by (rule map_result_Inr)
  then show ?thesis by (simp add: csvContent_def header_join)
qed

lemma csvContent_out_of_range:
  assumes "\<not> list_all in_date_range txs"
  shows "csvContent nts txs = Inl RangeError"
proof -
  from assms obtain x where "x \<in> set txs" "\<not> in_date_range x"
    by (auto simp: list_all_iff)
  then have "\<exists>x\<in>set txs. csv_row nts x = Inl RangeError"
    using csv_row_out_of_range by blast
  moreover have "\<forall>x\<in>set txs. csv_row nts x = Inl RangeError \<or> (\<exists>y. csv_row nts x = Inr y)"
    using csv_row_in_range csv_row_out_of_range by blast
  ultimately have "map_result (csv_row nts) txs = Inl RangeError"
    by (rule map_result_Inl)
  then show ?thesis by (simp add: csvContent_def)
qed

lemma csvContent2_rows:
  "csvContent2 nts loc txs =
     join [CHR 0x0A] (map Some (header_line # expected_rows2 nts loc txs))"
  by (simp add: csvContent2_def expected_rows2_def header_join csv_row2_texts [abs_def])

lemma row_texts_free:
  assumes c: "c \<notin> set ''0123456789-+T:.Z''" and f: "free_of c tx" and a: "small_amount tx"
  shows "\<forall>t\<in>set (row_texts nts tx). c \<notin> set t"
proof -
  have "set ''0123456789-.'' \<subseteq> set ''0123456789-+T:.Z''" by simp
  with c have c': "c \<notin> set ''0123456789-.''" by blast
  have i: "c \<notin> set (iso_text (timestamp tx * 1000))"
    using c iso_text_set by blast
  have t: "c \<notin> set (toFixed nts (amount tx) 6)"
    using c' toFixed_set [of "amount tx" nts] a unfolding small_amount_def by blast
  show ?thesis using f i t by (simp add: row_texts_def free_of_def)
qed

lemma row_texts2_free:
  assumes c: "c \<notin> set ''0123456789-.''" and f: "free_of c tx" and a: "small_amount tx"
    and l: "c \<notin> set (formatTimestamp loc (timestamp tx))"
  shows "\<forall>t\<in>set (row_texts2 nts loc tx). c \<notin> set t"
proof -
  have t: "c \<notin> set (toFixed nts (amount tx) 6)"
    using c toFixed_set [of "amount tx" nts] a unfolding small_amount_def by blast
  show ?thesis using f l t by (simp add: row_texts2_def free_of_def)
qed

lemma join_free:
  assumes "c \<notin> set sep" "\<forall>t\<in>set ts. c \<notin> set t"
  shows "c \<notin> set (join sep (map Some ts))"
  using join_set [of sep "map Some ts"] assms by (auto simp: element_text_def)

lemma newline_chars: "CHR 0x0A \<notin> set ''0123456789-+T:.Z''" "CHR 0x0A \<notin> set ''0123456789-.''"
  "CHR 0x0A \<notin> set '',''" "CHR 0x0A \<notin> set header_line"
  by (simp_all add: header_line_def)

lemma comma_chars: "CHR '','' \<notin> set ''0123456789-+T:.Z''" "CHR '','' \<notin> set ''0123456789-.''"
  by simp_all

lemma file_lines_rows:
  assumes "\<forall>r\<in>set rows. CHR 0x0A \<notin> set r"
  shows "file_lines (join [CHR 0x0A] (map Some (header_line # rows))) = header_line # rows"
  unfolding file_lines_def
  using assms newline_chars(4) by (intro split_on_join) auto

lemma example_age: "iso_text 1700000000000 = ''2023-11-14T22:13:20.000Z''"
  by code_simp

lemma example_amount: "toFixed nts (3 / 2) 6 = ''1.500000''"
proof -
  have d: "digits 1500000 = ''1500000''" by (simp add: digits.simps)
  show ?thesis unfolding toFixed_def Let_def by (simp add: d)
qed

lemma example_row_texts:
  "row_texts nts example_tx =
     [''0xabc'', [], [], ''2023-11-14T22:13:20.000Z'', [], [], ''1.500000'', ''0.001'']"
  by (simp add: row_texts_def example_tx_def element_text_def example_age example_amount)

lemma example_row_texts2:
  "row_texts2 nts loc example_tx =
     [''0xabc'', [], [], formatTimestamp loc 1700000000, [], [], ''1.500000'', ''0.001'']"
  by (simp add: row_texts2_def example_tx_def element_text_def example_amount)

lemma example_facts:
  "in_date_range example_tx" "small_amount example_tx" "free_of c example_tx \<longleftrightarrow> c \<notin> set ''0xabc'' \<and> c \<notin> set ''0.001''"
  by (auto simp: in_date_range_def small_amount_def free_of_def example_tx_def element_text_def)


lemma hd_file_lines:
  "hd (file_lines (join [CHR 0x0A] (map Some (header_line # rows)))) = header_line"
proof (cases rows)
  case Nil
  then show ?thesis
    by (simp add: file_lines_def element_text_def split_on_none newline_chars)
next
  case (Cons r rs)
  then show ?thesis
    by (simp add: file_lines_def element_text_def split_on_sep newline_chars)
qed

lemma rows_free:
  assumes "list_all (free_of (CHR 0x0A)) txs" "list_all small_amount txs"
  shows "\<forall>r\<in>set (expected_rows nts txs). CHR 0x0A \<notin> set r"
proof
  fix r assume "r \<in> set (expected_rows nts txs)"
  then obtain tx where tx: "tx \<in> set txs" and r: "r = join '','' (map Some (row_texts nts tx))"
    by (auto simp: expected_rows_def)
  from tx assms have "free_of (CHR 0x0A) tx" "small_amount tx" by (auto simp: list_all_iff)
  then have "\<forall>t\<in>set (row_texts nts tx). CHR 0x0A \<notin> set t"
    by (intro row_texts_free newline_chars)
  then show "CHR 0x0A \<notin> set r" unfolding r by (intro join_free newline_chars)
qed

lemma rows2_free:
  assumes "list_all (free_of (CHR 0x0A)) txs" "list_all small_amount txs"
    "list_all (\<lambda>tx. CHR 0x0A \<notin> set (formatTimestamp loc (timestamp tx))) txs"
  shows "\<forall>r\<in>set (expected_rows2 nts loc txs). CHR 0x0A \<notin> set r"
proof
  fix r assume "r \<in> set (expected_rows2 nts loc txs)"
  then obtain tx where tx: "tx \<in> set txs"
    and r: "r = join '','' (map Some (row_texts2 nts loc tx))"
    by (auto simp: expected_rows2_def)
  from tx assms have "free_of (CHR 0x0A) tx" "small_amount tx"
    "CHR 0x0A \<notin> set (formatTimestamp loc (timestamp tx))"
    by (auto simp: list_all_iff)
  then have "\<forall>t\<in>set (row_texts2 nts loc tx). CHR 0x0A \<notin> set t"
    by (intro row_texts2_free newline_chars)
  then show "CHR 0x0A \<notin> set r" unfolding r by (intro join_free newline_chars)
qed

lemma example_rows:
  "expected_rows nts [example_tx] = [''0xabc,,,2023-11-14T22:13:20.000Z,,,1.500000,0.001'']"
  "expected_rows2 nts loc [example_tx] =
     [''0xabc,,,'' @ formatTimestamp loc 1700000000 @ '',,,1.500000,0.001'']"
  by (simp_all add: expected_rows_def expected_rows2_def example_row_texts example_row_texts2
      element_text_def)

lemma example_lists:
  "list_all in_date_range [example_tx]" "list_all small_amount [example_tx]"
  "list_all (free_of (CHR 0x0A)) [example_tx]"
  by (simp_all add: example_facts)


subsection \<open>The exported file\<close>

text \<open>
  C3, as the specification states it: for every transaction list the export is a file
  whose first line is the header, with exactly one further row per transaction, the
  amount with six decimals and the age written by the absolute-timestamp formatter.
  The code joins the fields without quoting and checks none of them. The export of the
  example transaction with a sender text that holds a newline has three lines, two of
  them for the one transaction, and its age field, in the first version, is the UTC
  text of \<^verbatim>\<open>toISOString\<close>, not \<^verbatim>\<open>formatTimestamp\<close>'s. With a timestamp beyond the
  range of \<^verbatim>\<open>Date\<close> the first version throws and exports no file. With the amount
  \<open>10 ^ 21\<close> the amount field is what \<^verbatim>\<open>Number::toString\<close> gives (\<open>1e+21\<close> in
  JavaScript), with no decimals.
\<close>

theorem csv_export_unquoted:
  "map_sum id (\<lambda>d. file_lines (content d))
     (handleDownload (\<lambda>x. []) ''0xabcdef'' [example_tx\<lparr>tx_from := ''a\<newline>b''\<rparr>]) =
   Inr [''Transaction Hash,Method,Block,Age,From,To,Amount,Txn Fee'',
        ''0xabc,,,2023-11-14T22:13:20.000Z,a'',
        ''b,,1.500000,0.001''] \<and>
   handleDownload (\<lambda>x. []) ''0xabcdef'' [example_tx\<lparr>timestamp := 10000000000000\<rparr>] =
     Inl RangeError \<and>
   csv_row (\<lambda>x. ''1e+21'') (example_tx\<lparr>amount := 10 ^ 21\<rparr>) =
     Inr ''0xabc,,,2023-11-14T22:13:20.000Z,,,1e+21,0.001''"
proof -
  have r: "in_date_range (example_tx\<lparr>tx_from := ''a\<newline>b''\<rparr>)"
    by (simp add: in_date_range_def example_tx_def)
  have t: "row_texts (\<lambda>x. []) (example_tx\<lparr>tx_from := ''a\<newline>b''\<rparr>) =
     [''0xabc'', [], [], ''2023-11-14T22:13:20.000Z'', ''a\<newline>b'', [], ''1.500000'', ''0.001'']"
    by (simp add: row_texts_def example_tx_def element_text_def example_age example_amount)
  have "csvContent (\<lambda>x. []) [example_tx\<lparr>tx_from := ''a\<newline>b''\<rparr>] =
      Inr (''Transaction Hash,Method,Block,Age,From,To,Amount,Txn Fee'' @ ''\<newline>'' @
           ''0xabc,,,2023-11-14T22:13:20.000Z,a\<newline>b,,1.500000,0.001'')"
    using r by (simp add: csvContent_in_range expected_rows_def t header_line_def element_text_def)
  then have a: "map_sum id (\<lambda>d. file_lines (content d))
     (handleDownload (\<lambda>x. []) ''0xabcdef'' [example_tx\<lparr>tx_from := ''a\<newline>b''\<rparr>]) =
   Inr [''Transaction Hash,Method,Block,Age,From,To,Amount,Txn Fee'',
        ''0xabc,,,2023-11-14T22:13:20.000Z,a'',
        ''b,,1.500000,0.001'']"
    by (simp add: handleDownload_def file_lines_def)
  have "\<not> list_all in_date_range [example_tx\<lparr>timestamp := 10000000000000\<rparr>]"
    by (simp add: in_date_range_def)
  then have b: "handleDownload (\<lambda>x. []) ''0xabcdef''
      [example_tx\<lparr>timestamp := 10000000000000\<rparr>] = Inl RangeError"
    by (simp add: handleDownload_def csvContent_out_of_range)
  have "(10::real) ^ 21 \<le> \<bar>10 ^ 21\<bar>" "\<not> (10::real) ^ 21 < 0"
    by simp_all
  then have big: "toFixed (\<lambda>x. ''1e+21'') (10 ^ 21) 6 = ''1e+21''"
    by (simp only: toFixed_def Let_def if_True if_False append_Nil)
  then have big': "toFixed (\<lambda>x. ''1e+21'') 1000000000000000000000 6 = ''1e+21''"
    by simp
  have c: "csv_row (\<lambda>x. ''1e+21'') (example_tx\<lparr>amount := 10 ^ 21\<rparr>) =
     Inr ''0xabc,,,2023-11-14T22:13:20.000Z,,,1e+21,0.001''"
    by (simp add: csv_row_def toISOString_def example_tx_def example_age big' element_text_def)
  from a b c show ?thesis by (intro conjI)
qed


text \<open>
  C3, amended. First version: when every timestamp, in milliseconds, is a time value of
  \<^verbatim>\<open>Date\<close>, the export is a file named after the address whose content is the header
  line and one row per transaction, joined by newlines; otherwise the export throws a
  RangeError. Second version: the same content, for every list. A row is its eight
  field texts joined by commas; the age is \<^verbatim>\<open>toISOString\<close>'s text in the first version
  and \<^verbatim>\<open>formatTimestamp\<close>'s in the second; the amount is \<^verbatim>\<open>amount.toFixed(6)\<close>, which
  has exactly six decimals when the amount is below \<open>10 ^ 21\<close> in magnitude. The
  first line of the file is the header. When no row holds a newline, the lines of the
  file are the header and then exactly one line per transaction; no row holds a newline when no text field of a transaction does and
  the amounts are below \<open>10 ^ 21\<close> in magnitude (and, in the second version, no age
  text holds one). For the example transaction the second line is
  \<open>0xabc,,,<age>,,,1.500000,0.001\<close>: it starts with \<open>0xabc,\<close> and contains
  \<open>1.500000\<close>.
\<close>

theorem csv_export_spec:
  "(list_all in_date_range txs \<longrightarrow>
      handleDownload nts address txs =
        Inr \<lparr>filename = address @ ''_transactions.csv'',
             mime_type = ''text/csv;charset=utf-8;'',
             content = join [CHR 0x0A] (map Some (header_line # expected_rows nts txs))\<rparr>) \<and>
   (\<not> list_all in_date_range txs \<longrightarrow> handleDownload nts address txs = Inl RangeError) \<and>
   handleDownload2 nts loc address txs =
     \<lparr>filename = address @ ''_transactions.csv'', mime_type = ''text/csv;charset=utf-8;'',
      content = join [CHR 0x0A] (map Some (header_line # expected_rows2 nts loc txs))\<rparr> \<and>
   hd (file_lines (join [CHR 0x0A] (map Some (header_line # expected_rows nts txs))))
     = header_line \<and>
   hd (file_lines (join [CHR 0x0A] (map Some (header_line # expected_rows2 nts loc txs))))
     = header_line \<and>
   length (expected_rows nts txs) = length txs \<and>
   length (expected_rows2 nts loc txs) = length txs \<and>
   (\<forall>tx. row_texts nts tx ! 3 = iso_text (timestamp tx * 1000) \<and>
         row_texts2 nts loc tx ! 3 = formatTimestamp loc (timestamp tx) \<and>
         row_texts nts tx ! 6 = toFixed nts (amount tx) 6 \<and>
         row_texts2 nts loc tx ! 6 = toFixed nts (amount tx) 6 \<and>
         (small_amount tx \<longrightarrow> six_decimals (toFixed nts (amount tx) 6))) \<and>
   ((\<forall>r\<in>set (expected_rows nts txs). CHR 0x0A \<notin> set r) \<longrightarrow>
      file_lines (join [CHR 0x0A] (map Some (header_line # expected_rows nts txs)))
        = header_line # expected_rows nts txs) \<and>
   ((\<forall>r\<in>set (expected_rows2 nts loc txs). CHR 0x0A \<notin> set r) \<longrightarrow>
      file_lines (join [CHR 0x0A] (map Some (header_line # expected_rows2 nts loc txs)))
        = header_line # expected_rows2 nts loc txs) \<and>
   (list_all (free_of (CHR 0x0A)) txs \<and> list_all small_amount txs \<longrightarrow>
      (\<forall>r\<in>set (expected_rows nts txs). CHR 0x0A \<notin> set r)) \<and>
   (list_all (free_of (CHR 0x0A)) txs \<and> list_all small_amount txs \<and>
    list_all (\<lambda>tx. CHR 0x0A \<notin> set (formatTimestamp loc (timestamp tx))) txs \<longrightarrow>
      (\<forall>r\<in>set (expected_rows2 nts loc txs). CHR 0x0A \<notin> set r)) \<and>
   file_lines (join [CHR 0x0A] (map Some (header_line # expected_rows nts [example_tx])))
     = [header_line, ''0xabc,,,2023-11-14T22:13:20.000Z,,,1.500000,0.001''] \<and>
   (CHR 0x0A \<notin> set (formatTimestamp loc 1700000000) \<longrightarrow>
      file_lines (join [CHR 0x0A] (map Some (header_line # expected_rows2 nts loc [example_tx])))
        = [header_line, ''0xabc,,,'' @ formatTimestamp loc 1700000000 @ '',,,1.500000,0.001''])"
proof -
  let ?nl = "CHR 0x0A"
  have v1: "list_all in_date_range txs \<longrightarrow>
      handleDownload nts address txs =
        Inr \<lparr>filename = address @ ''_transactions.csv'',
             mime_type = ''text/csv;charset=utf-8;'',
             content = join [?nl] (map Some (header_line # expected_rows nts txs))\<rparr>"
    by (simp add: handleDownload_def csvContent_in_range)
  have err: "\<not> list_all in_date_range txs \<longrightarrow> handleDownload nts address txs = Inl RangeError"
    by (simp add: handleDownload_def csvContent_out_of_range)
  have v2: "handleDownload2 nts loc address txs =
     \<lparr>filename = address @ ''_transactions.csv'', mime_type = ''text/csv;charset=utf-8;'',
      content = join [?nl] (map Some (header_line # expected_rows2 nts loc txs))\<rparr>"
    by (simp add: handleDownload2_def csvContent2_rows)
  have first: "hd (file_lines (join [?nl] (map Some (header_line # expected_rows nts txs))))
     = header_line"
    "hd (file_lines (join [?nl] (map Some (header_line # expected_rows2 nts loc txs))))
     = header_line"
    by (rule hd_file_lines)+
  have len: "length (expected_rows nts txs) = length txs"
    "length (expected_rows2 nts loc txs) = length txs"
    by (simp_all add: expected_rows_def expected_rows2_def)
  have fields: "\<forall>tx. row_texts nts tx ! 3 = iso_text (timestamp tx * 1000) \<and>
         row_texts2 nts loc tx ! 3 = formatTimestamp loc (timestamp tx) \<and>
         row_texts nts tx ! 6 = toFixed nts (amount tx) 6 \<and>
         row_texts2 nts loc tx ! 6 = toFixed nts (amount tx) 6 \<and>
         (small_amount tx \<longrightarrow> six_decimals (toFixed nts (amount tx) 6))"
    by (simp add: row_texts_def row_texts2_def small_amount_def toFixed_six_decimals)
  have l1: "(\<forall>r\<in>set (expected_rows nts txs). ?nl \<notin> set r) \<longrightarrow>
      file_lines (join [?nl] (map Some (header_line # expected_rows nts txs)))
        = header_line # expected_rows nts txs"
    by (rule impI, rule file_lines_rows)
  have l2: "(\<forall>r\<in>set (expected_rows2 nts loc txs). ?nl \<notin> set r) \<longrightarrow>
      file_lines (join [?nl] (map Some (header_line # expected_rows2 nts loc txs)))
        = header_line # expected_rows2 nts loc txs"
    by (rule impI, rule file_lines_rows)
  have s1: "list_all (free_of ?nl) txs \<and> list_all small_amount txs \<longrightarrow>
      (\<forall>r\<in>set (expected_rows nts txs). ?nl \<notin> set r)"
    using rows_free by blast
  have s2: "list_all (free_of ?nl) txs \<and> list_all small_amount txs \<and>
    list_all (\<lambda>tx. ?nl \<notin> set (formatTimestamp loc (timestamp tx))) txs \<longrightarrow>
      (\<forall>r\<in>set (expected_rows2 nts loc txs). ?nl \<notin> set r)"
    using rows2_free by blast
  have "file_lines (join [?nl] (map Some (header_line # expected_rows nts [example_tx])))
     = header_line # expected_rows nts [example_tx]"
    by (intro file_lines_rows rows_free example_lists)
  then have ex1: "file_lines (join [?nl] (map Some (header_line # expected_rows nts [example_tx])))
     = [header_line, ''0xabc,,,2023-11-14T22:13:20.000Z,,,1.500000,0.001'']"
    by (simp only: example_rows)
  have ex2: "?nl \<notin> set (formatTimestamp loc 1700000000) \<longrightarrow>
      file_lines (join [?nl] (map Some (header_line # expected_rows2 nts loc [example_tx])))
        = [header_line, ''0xabc,,,'' @ formatTimestamp loc 1700000000 @ '',,,1.500000,0.001'']"
  proof
    assume "?nl \<notin> set (formatTimestamp loc 1700000000)"
    then have "list_all (\<lambda>tx. ?nl \<notin> set (formatTimestamp loc (timestamp tx))) [example_tx]"
      by (simp add: example_tx_def)
    then have "file_lines (join [?nl] (map Some (header_line # expected_rows2 nts loc [example_tx])))
        = header_line # expected_rows2 nts loc [example_tx]"
      by (intro file_lines_rows rows2_free example_lists)
    then show "file_lines (join [?nl] (map Some (header_line # expected_rows2 nts loc [example_tx])))
        = [header_line, ''0xabc,,,'' @ formatTimestamp loc 1700000000 @ '',,,1.500000,0.001'']"
      by (simp only: example_rows)
  qed
  show ?thesis by (intro conjI v1 err v2 first len fields l1 l2 s1 s2 ex1 ex2)
qed

theorem csv_export_spec_witness:
  "handleDownload (\<lambda>x. []) ''0xabcdef'' [example_tx] =
     Inr \<lparr>filename = ''0xabcdef_transactions.csv'', mime_type = ''text/csv;charset=utf-8;'',
          content = ''Transaction Hash,Method,Block,Age,From,To,Amount,Txn Fee\<newline>0xabc,,,2023-11-14T22:13:20.000Z,,,1.500000,0.001''\<rparr> \<and>
   file_lines ''Transaction Hash,Method,Block,Age,From,To,Amount,Txn Fee\<newline>0xabc,,,2023-11-14T22:13:20.000Z,,,1.500000,0.001'' =
     [''Transaction Hash,Method,Block,Age,From,To,Amount,Txn Fee'',
      ''0xabc,,,2023-11-14T22:13:20.000Z,,,1.500000,0.001''] \<and>
   file_lines (content (handleDownload2 (\<lambda>x. []) (\<lambda>t. ''15/11/2023, 05:13:20'') ''0xabcdef''
       [example_tx])) =
     [''Transaction Hash,Method,Block,Age,From,To,Amount,Txn Fee'',
      ''0xabc,,,15/11/2023 05:13:20,,,1.500000,0.001''] \<and>
   six_decimals ''1.500000''"
proof -
  note S = csv_export_spec [of "[example_tx]" "\<lambda>x. []" "''0xabcdef''"
      "\<lambda>t. ''15/11/2023, 05:13:20''"]
  have f: "formatTimestamp (\<lambda>t. ''15/11/2023, 05:13:20'') 1700000000 = ''15/11/2023 05:13:20''"
    by (simp add: formatTimestamp_def)
  have n: "CHR 0x0A \<notin> set (formatTimestamp (\<lambda>t. ''15/11/2023, 05:13:20'') 1700000000)"
    unfolding f by simp
  have j: "join [CHR 0x0A]
      (map Some [header_line, ''0xabc,,,2023-11-14T22:13:20.000Z,,,1.500000,0.001''])
     = ''Transaction Hash,Method,Block,Age,From,To,Amount,Txn Fee\<newline>0xabc,,,2023-11-14T22:13:20.000Z,,,1.500000,0.001''"
    by (simp add: header_line_def element_text_def)
  from S example_lists(1) have a: "handleDownload (\<lambda>x. []) ''0xabcdef'' [example_tx] =
        Inr \<lparr>filename = ''0xabcdef'' @ ''_transactions.csv'',
             mime_type = ''text/csv;charset=utf-8;'',
             content = join [CHR 0x0A]
               (map Some (header_line # expected_rows (\<lambda>x. []) [example_tx]))\<rparr>"
    by blast
  from S have b: "file_lines (join [CHR 0x0A]
        (map Some (header_line # expected_rows (\<lambda>x. []) [example_tx])))
     = [header_line, ''0xabc,,,2023-11-14T22:13:20.000Z,,,1.500000,0.001'']"
    by blast
  from S n have c: "file_lines (join [CHR 0x0A]
        (map Some (header_line #
           expected_rows2 (\<lambda>x. []) (\<lambda>t. ''15/11/2023, 05:13:20'') [example_tx])))
     = [header_line, ''0xabc,,,'' @
          formatTimestamp (\<lambda>t. ''15/11/2023, 05:13:20'') 1700000000 @ '',,,1.500000,0.001'']"
    by blast
  from S have v2: "handleDownload2 (\<lambda>x. []) (\<lambda>t. ''15/11/2023, 05:13:20'') ''0xabcdef''
      [example_tx] =
     \<lparr>filename = ''0xabcdef'' @ ''_transactions.csv'', mime_type = ''text/csv;charset=utf-8;'',
      content = join [CHR 0x0A] (map Some (header_line #
           expected_rows2 (\<lambda>x. []) (\<lambda>t. ''15/11/2023, 05:13:20'') [example_tx]))\<rparr>"
    by blast
  from S have "\<forall>tx. small_amount tx \<longrightarrow> six_decimals (toFixed (\<lambda>x. []) (amount tx) 6)"
    by blast
  with example_facts(2) have "six_decimals (toFixed (\<lambda>x. []) (amount example_tx) 6)"
    by blast
  then have d: "six_decimals ''1.500000''"
    by (simp add: example_tx_def example_amount)
  have a': "handleDownload (\<lambda>x. []) ''0xabcdef'' [example_tx] =
     Inr \<lparr>filename = ''0xabcdef_transactions.csv'', mime_type = ''text/csv;charset=utf-8;'',
          content = ''Transaction Hash,Method,Block,Age,From,To,Amount,Txn Fee\<newline>0xabc,,,2023-11-14T22:13:20.000Z,,,1.500000,0.001''\<rparr>"
    using a unfolding example_rows by (simp add: header_line_def element_text_def)
  have b': "file_lines ''Transaction Hash,Method,Block,Age,From,To,Amount,Txn Fee\<newline>0xabc,,,2023-11-14T22:13:20.000Z,,,1.500000,0.001'' =
     [''Transaction Hash,Method,Block,Age,From,To,Amount,Txn Fee'',
      ''0xabc,,,2023-11-14T22:13:20.000Z,,,1.500000,0.001'']"
    using b unfolding example_rows j by (simp add: header_line_def)
  have c': "file_lines (content (handleDownload2 (\<lambda>x. []) (\<lambda>t. ''15/11/2023, 05:13:20'')
       ''0xabcdef'' [example_tx])) =
     [''Transaction Hash,Method,Block,Age,From,To,Amount,Txn Fee'',
      ''0xabc,,,15/11/2023 05:13:20,,,1.500000,0.001'']"
    using c unfolding v2 f by (simp add: header_line_def)
  from a' b' c' d show ?thesis by (intro conjI)
qed


subsection \<open>Absent fields of a row\<close>

text \<open>
  C9, as stated: every row in which optional fields are absent still consists of exactly
  8 comma-separated fields. The absent hash is written as the empty text, but a method
  signature with a comma in it is written as it is: the row below reads as 9 fields.
  With a timestamp beyond the range of \<^verbatim>\<open>Date\<close> the first version throws and there is
  no row.
\<close>

theorem csv_row_comma_in_field:
  "map_sum id row_fields
     (csv_row (\<lambda>x. [])
        (example_tx\<lparr>hash := None, tx_method := Some ''transfer(address,uint256)''\<rparr>)) =
   Inr [[], ''transfer(address'', ''uint256)'', [], ''2023-11-14T22:13:20.000Z'', [], [],
        ''1.500000'', ''0.001''] \<and>
   map_sum id (\<lambda>r. length (row_fields r))
     (csv_row (\<lambda>x. [])
        (example_tx\<lparr>hash := None, tx_method := Some ''transfer(address,uint256)''\<rparr>)) =
   Inr 9 \<and>
   csv_row (\<lambda>x. []) (example_tx\<lparr>hash := None, timestamp := 10000000000000\<rparr>) =
     Inl RangeError"
proof -
  let ?tx = "example_tx\<lparr>hash := None, tx_method := Some ''transfer(address,uint256)''\<rparr>"
  have r: "in_date_range ?tx"
    by (simp add: in_date_range_def example_tx_def)
  have t: "row_texts (\<lambda>x. []) ?tx =
     [[], ''transfer(address,uint256)'', [], ''2023-11-14T22:13:20.000Z'', [], [],
      ''1.500000'', ''0.001'']"
    by (simp add: row_texts_def example_tx_def element_text_def example_age example_amount)
  have "csv_row (\<lambda>x. []) ?tx =
      Inr '',transfer(address,uint256),,2023-11-14T22:13:20.000Z,,,1.500000,0.001''"
    using r by (simp add: csv_row_in_range t element_text_def)
  then have a: "map_sum id row_fields (csv_row (\<lambda>x. []) ?tx) =
   Inr [[], ''transfer(address'', ''uint256)'', [], ''2023-11-14T22:13:20.000Z'', [], [],
        ''1.500000'', ''0.001'']"
    "map_sum id (\<lambda>r. length (row_fields r)) (csv_row (\<lambda>x. []) ?tx) = Inr 9"
    by (simp_all add: row_fields_def)
  have b: "csv_row (\<lambda>x. []) (example_tx\<lparr>hash := None, timestamp := 10000000000000\<rparr>) =
     Inl RangeError"
    by (simp add: csv_row_out_of_range in_date_range_def)
  from a b show ?thesis by (intro conjI)
qed


text \<open>
  C9, amended: for every transaction (in the first version: with a timestamp that
  \<^verbatim>\<open>Date\<close> accepts; otherwise the row throws a RangeError) the row is its eight field
  texts joined by commas, and each of hash, method, block and fee that is absent gives
  the empty text, not \<open>undefined\<close>. The row reads back as exactly these 8
  comma-separated fields when none of the field texts holds a comma, which is so when no
  text field of the transaction holds a comma and the amount is below \<open>10 ^ 21\<close> in
  magnitude (and, in the second version, the age text holds no comma).
\<close>

theorem csv_row_fields:
  "(in_date_range tx \<longrightarrow> csv_row nts tx = Inr (join '','' (map Some (row_texts nts tx)))) \<and>
   (\<not> in_date_range tx \<longrightarrow> csv_row nts tx = Inl RangeError) \<and>
   csv_row2 nts loc tx = join '','' (map Some (row_texts2 nts loc tx)) \<and>
   length (row_texts nts tx) = 8 \<and> length (row_texts2 nts loc tx) = 8 \<and>
   (hash tx = None \<longrightarrow> row_texts nts tx ! 0 = [] \<and> row_texts2 nts loc tx ! 0 = []) \<and>
   (tx_method tx = None \<longrightarrow> row_texts nts tx ! 1 = [] \<and> row_texts2 nts loc tx ! 1 = []) \<and>
   (block tx = None \<longrightarrow> row_texts nts tx ! 2 = [] \<and> row_texts2 nts loc tx ! 2 = []) \<and>
   (fee tx = None \<longrightarrow> row_texts nts tx ! 7 = [] \<and> row_texts2 nts loc tx ! 7 = []) \<and>
   ((\<forall>t\<in>set (row_texts nts tx). CHR '','' \<notin> set t) \<longrightarrow>
      row_fields (join '','' (map Some (row_texts nts tx))) = row_texts nts tx) \<and>
   ((\<forall>t\<in>set (row_texts2 nts loc tx). CHR '','' \<notin> set t) \<longrightarrow>
      row_fields (csv_row2 nts loc tx) = row_texts2 nts loc tx) \<and>
   (free_of CHR '','' tx \<and> small_amount tx \<longrightarrow>
      (\<forall>t\<in>set (row_texts nts tx). CHR '','' \<notin> set t)) \<and>
   (free_of CHR '','' tx \<and> small_amount tx \<and>
    CHR '','' \<notin> set (formatTimestamp loc (timestamp tx)) \<longrightarrow>
      (\<forall>t\<in>set (row_texts2 nts loc tx). CHR '','' \<notin> set t))"
proof -
  have r1: "in_date_range tx \<longrightarrow> csv_row nts tx = Inr (join '','' (map Some (row_texts nts tx)))"
    by (simp add: csv_row_in_range)
  have e1: "\<not> in_date_range tx \<longrightarrow> csv_row nts tx = Inl RangeError"
    by (simp add: csv_row_out_of_range)
  have r2: "csv_row2 nts loc tx = join '','' (map Some (row_texts2 nts loc tx))"
    by (rule csv_row2_texts)
  have len: "length (row_texts nts tx) = 8" "length (row_texts2 nts loc tx) = 8"
    by (simp_all add: row_texts_def row_texts2_def)
  have absent:
    "hash tx = None \<longrightarrow> row_texts nts tx ! 0 = [] \<and> row_texts2 nts loc tx ! 0 = []"
    "tx_method tx = None \<longrightarrow> row_texts nts tx ! 1 = [] \<and> row_texts2 nts loc tx ! 1 = []"
    "block tx = None \<longrightarrow> row_texts nts tx ! 2 = [] \<and> row_texts2 nts loc tx ! 2 = []"
    "fee tx = None \<longrightarrow> row_texts nts tx ! 7 = [] \<and> row_texts2 nts loc tx ! 7 = []"
    by (simp_all add: row_texts_def row_texts2_def element_text_def)
  have ne: "row_texts nts tx \<noteq> []" "row_texts2 nts loc tx \<noteq> []"
    by (simp_all add: row_texts_def row_texts2_def)
  have f1: "(\<forall>t\<in>set (row_texts nts tx). CHR '','' \<notin> set t) \<longrightarrow>
      row_fields (join '','' (map Some (row_texts nts tx))) = row_texts nts tx"
    unfolding row_fields_def
    using split_on_join [OF ne(1), of "CHR '',''"] by simp
  have f2: "(\<forall>t\<in>set (row_texts2 nts loc tx). CHR '','' \<notin> set t) \<longrightarrow>
      row_fields (csv_row2 nts loc tx) = row_texts2 nts loc tx"
    unfolding row_fields_def r2
    using split_on_join [OF ne(2), of "CHR '',''"] by simp
  have s1: "free_of CHR '','' tx \<and> small_amount tx \<longrightarrow>
      (\<forall>t\<in>set (row_texts nts tx). CHR '','' \<notin> set t)"
    using row_texts_free [OF comma_chars(1), of tx nts] by blast
  have s2: "free_of CHR '','' tx \<and> small_amount tx \<and>
    CHR '','' \<notin> set (formatTimestamp loc (timestamp tx)) \<longrightarrow>
      (\<forall>t\<in>set (row_texts2 nts loc tx). CHR '','' \<notin> set t)"
    using row_texts2_free [OF comma_chars(2), of tx loc nts] by blast
  show ?thesis by (intro conjI r1 e1 r2 len absent f1 f2 s1 s2)
qed


theorem csv_row_fields_witness:
  "csv_row (\<lambda>x. []) (example_tx\<lparr>hash := None\<rparr>) =
     Inr '',,,2023-11-14T22:13:20.000Z,,,1.500000,0.001'' \<and>
   row_fields '',,,2023-11-14T22:13:20.000Z,,,1.500000,0.001'' =
     [[], [], [], ''2023-11-14T22:13:20.000Z'', [], [], ''1.500000'', ''0.001'']"
proof -
  let ?tx = "example_tx\<lparr>hash := None\<rparr>"
  note S = csv_row_fields [of ?tx "\<lambda>x. []" "\<lambda>t. []"]
  have h: "in_date_range ?tx" "small_amount ?tx" "free_of CHR '','' ?tx"
    by (simp_all add: in_date_range_def small_amount_def free_of_def example_tx_def
        element_text_def)
  have t: "row_texts (\<lambda>x. []) ?tx =
     [[], [], [], ''2023-11-14T22:13:20.000Z'', [], [], ''1.500000'', ''0.001'']"
    by (simp add: row_texts_def example_tx_def element_text_def example_age example_amount)
  have j: "join '','' (map Some (row_texts (\<lambda>x. []) ?tx)) =
      '',,,2023-11-14T22:13:20.000Z,,,1.500000,0.001''"
    unfolding t by (simp add: element_text_def)
  from S h have "csv_row (\<lambda>x. []) ?tx = Inr (join '','' (map Some (row_texts (\<lambda>x. []) ?tx)))"
    "row_fields (join '','' (map Some (row_texts (\<lambda>x. []) ?tx))) = row_texts (\<lambda>x. []) ?tx"
    by blast+
  then have "csv_row (\<lambda>x. []) ?tx = Inr '',,,2023-11-14T22:13:20.000Z,,,1.500000,0.001''"
    "row_fields '',,,2023-11-14T22:13:20.000Z,,,1.500000,0.001'' = row_texts (\<lambda>x. []) ?tx"
    unfolding j by - assumption+
  then show ?thesis unfolding t by simp
qed

end
